theory Spec2Isabelle
  imports Main "HOL-Library.Sublist" "HOL-Library.Word"
begin

chapter \<open>FalconVault: the encrypted key vault, its network layer and its dispatcher\<close>

section \<open>Values, exceptions and observable effects\<close>

text \<open>
  A JavaScript exception carries a message. \<open>Error\<close> is what the repository throws
  itself (\<^verbatim>\<open>new Error(...)\<close>); \<open>TypeError\<close> is what the language raises on a
  property read of \<^verbatim>\<open>null\<close>/\<^verbatim>\<open>undefined\<close> or on iterating a value that
  is not iterable; \<open>SyntaxError\<close> is what \<^verbatim>\<open>JSON.parse\<close> raises. A function
  that may throw returns \<open>exn + 'a\<close>, with \<open>Inl\<close> the exception.
\<close>

datatype exn = Error string | TypeError string | SyntaxError string

fun message :: "exn \<Rightarrow> string" where
  "message (Error m) = m"
| "message (TypeError m) = m"
| "message (SyntaxError m) = m"

text \<open>
  Values of type \<^verbatim>\<open>any\<close> that come out of \<^verbatim>\<open>JSON.parse\<close> (a request payload, a
  transaction object). Numbers are kept as integers: the code only passes them on or tests
  them for truthiness.
\<close>

datatype json =
    JNull
  | JBool bool
  | JNum int
  | JStr string
  | JArr "json list"
  | JObj "(string \<times> json) list"

text \<open>JavaScript truthiness of a parsed value, as \<^verbatim>\<open>!v\<close> and \<^verbatim>\<open>||\<close> test it.\<close>

fun truthy :: "json \<Rightarrow> bool" where
  "truthy JNull = False"
| "truthy (JBool b) = b"
| "truthy (JNum n) = (n \<noteq> 0)"
| "truthy (JStr s) = (s \<noteq> [])"
| "truthy (JArr _) = True"
| "truthy (JObj _) = True"

text \<open>
  \<^verbatim>\<open>v.k\<close> on a parsed value, for the property names the code reads
  (\<^verbatim>\<open>domain\<close>, \<^verbatim>\<open>types\<close>, \<^verbatim>\<open>value\<close>, \<^verbatim>\<open>chainId\<close>,
  \<^verbatim>\<open>label\<close>, \<^verbatim>\<open>privateKey\<close>, \<^verbatim>\<open>raw\<close>, \<^verbatim>\<open>address\<close>): names
  that no string, array, number or boolean has and that no object inherits. \<open>Inl\<close> is
  the TypeError of reading a property of \<^verbatim>\<open>null\<close>; \<open>Inr None\<close> is
  \<^verbatim>\<open>undefined\<close>. In an object literal with a repeated key the last occurrence wins.
\<close>

fun get_prop :: "json \<Rightarrow> string \<Rightarrow> exn + json option" where
  "get_prop JNull k = Inl (TypeError (''Cannot read properties of null (reading '' @ k @ '')''))"
| "get_prop (JObj kvs) k = Inr (map_of (rev kvs) k)"
| "get_prop _ k = Inr None"

text \<open>Truthiness of an optional value: \<^verbatim>\<open>undefined\<close> is falsy.\<close>

fun truthy_opt :: "json option \<Rightarrow> bool" where
  "truthy_opt None = False"
| "truthy_opt (Some v) = truthy v"

text \<open>
  What the code does to the outside world, in the order it does it: an RPC endpoint it
  tries, a line it hands to the system logger (\<^verbatim>\<open>logger.log(message, type, source)\<close>),
  a console warning or error, a call of \<^verbatim>\<open>decryptData\<close> on a blob, a line of the
  signer tool's own log panel.
\<close>

datatype LogType = Info | Success | Warning | Failure

datatype event =
    RpcAttempt string
  | LoggerLog string LogType string
  | ConsoleWarn string
  | ConsoleError string
  | DecryptCall string
  | AddLog string

section \<open>Network access layer (services/cryptoService.ts)\<close>

subsection \<open>Configuration tables\<close>

definition NETWORKS :: "(string \<times> string list) list" where
  "NETWORKS =
    [(''mainnet'', [''https://eth.llamarpc.com'', ''https://rpc.ankr.com/eth'',
                    ''https://1rpc.io/eth'', ''https://cloudflare-eth.com'']),
     (''arbitrum'', [''https://arb1.arbitrum.io/rpc'', ''https://rpc.ankr.com/arbitrum'',
                     ''https://1rpc.io/arb'']),
     (''optimism'', [''https://mainnet.optimism.io'', ''https://rpc.ankr.com/optimism'',
                     ''https://optimism.llamarpc.com'']),
     (''polygon'', [''https://polygon-rpc.com'', ''https://rpc.ankr.com/polygon'',
                    ''https://1rpc.io/matic'']),
     (''base'', [''https://mainnet.base.org'', ''https://base.llamarpc.com'',
                 ''https://1rpc.io/base'']),
     (''zksync'', [''https://mainnet.era.zksync.io'', ''https://1rpc.io/zksync2-era'']),
     (''linea'', [''https://rpc.linea.build'', ''https://1rpc.io/linea'']),
     (''sepolia'', [''https://rpc.ankr.com/eth_sepolia'', ''https://1rpc.io/sepolia''])]"

record token_set =
  usdt_address :: "string option"
  usdc_address :: "string option"

definition TOKEN_ADDRESSES :: "(string \<times> token_set) list" where
  "TOKEN_ADDRESSES =
    [(''mainnet'', \<lparr>usdt_address = Some ''0xdac17f958d2ee523a2206206994597c13d831ec7'',
                    usdc_address = Some ''0xa0b86991c6218b36c1d19d4a2e9eb0ce3606eb48''\<rparr>),
     (''arbitrum'', \<lparr>usdt_address = Some ''0xFd086bC7CD5C481DCC9C85ebE478A1C0b69FCbb9'',
                     usdc_address = Some ''0xaf88d065e77c8cC2239327C5EDb3A432268e5831''\<rparr>),
     (''optimism'', \<lparr>usdt_address = Some ''0x94b008aA00579c1307B0EF2c499aD98a8ce98748'',
                     usdc_address = Some ''0x0b2C630C5307324423542016988782fC8f48345e''\<rparr>),
     (''polygon'', \<lparr>usdt_address = Some ''0xc2132D05D31c914a87C6611C10748AEb04B58e8F'',
                    usdc_address = Some ''0x3c499c542cEF5E3811e1192ce70d8cC03d5c3359''\<rparr>),
     (''base'', \<lparr>usdt_address = None,
                 usdc_address = Some ''0x833589fCD6eDb6E08f4c7C32D4f71b54bdA02913''\<rparr>),
     (''zksync'', \<lparr>usdt_address = None,
                   usdc_address = Some ''0x3355df6D4c9C3035724Fd0e3914dE96A5a83aaf4''\<rparr>),
     (''linea'', \<lparr>usdt_address = None,
                  usdc_address = Some ''0x176211869cA2b568f2A7D4EE941E073a821EE1ff''\<rparr>)]"

text \<open>The empty token set \<^verbatim>\<open>{}\<close>.\<close>

definition no_tokens :: token_set where
  "no_tokens = \<lparr>usdt_address = None, usdc_address = None\<rparr>"

text \<open>
  Both tables are plain object literals, and the code reads them with a computed key
  (\<^verbatim>\<open>NETWORKS[networkKey.toLowerCase()]\<close>). Such a read finds the table's own
  entries and, failing that, the members every object inherits from
  \<^verbatim>\<open>Object.prototype\<close>; only then is the result \<^verbatim>\<open>undefined\<close>. An inherited
  member is a function or an object: truthy, not iterable, with no \<^verbatim>\<open>usdt\<close> or
  \<^verbatim>\<open>usdc\<close> property.
\<close>

definition object_prototype_members :: "string list" where
  "object_prototype_members =
    [''constructor'', ''__proto__'', ''hasOwnProperty'', ''isPrototypeOf'',
     ''propertyIsEnumerable'', ''toLocaleString'', ''toString'', ''valueOf'',
     ''__defineGetter__'', ''__defineSetter__'', ''__lookupGetter__'', ''__lookupSetter__'']"

datatype 'a member = Own 'a | Inherited | Undefined

definition table_get :: "(string \<times> 'a) list \<Rightarrow> string \<Rightarrow> 'a member" where
  "table_get tbl k =
     (case map_of tbl k of
        Some v \<Rightarrow> Own v
      | None \<Rightarrow> if k \<in> set object_prototype_members then Inherited else Undefined)"

text \<open>
  \<^verbatim>\<open>String.prototype.toLowerCase\<close>. A text is held as the bytes of its UTF-8 form,
  so a character outside ASCII is a run of bytes from \<open>0x80\<close> upwards. The ASCII
  capitals go to their small letters. U+212A KELVIN SIGN (the bytes \<open>E2 84 AA\<close>) goes
  to the letter k: it is the one character outside ASCII whose lower case is ASCII text,
  so the one that can turn a key that is not in a table into one that is. The other
  characters outside ASCII are left as they are; whatever JavaScript makes of them is
  again outside ASCII, and every key of the two tables and every inherited member name is
  ASCII, so no lookup can tell the difference.
\<close>

definition lower_char :: "char \<Rightarrow> char" where
  "lower_char c =
     (case map_of (zip ''ABCDEFGHIJKLMNOPQRSTUVWXYZ'' ''abcdefghijklmnopqrstuvwxyz'') c of
        Some l \<Rightarrow> l
      | None \<Rightarrow> c)"

definition kelvin_sign :: string where
  "kelvin_sign = [CHR 0xE2, CHR 0x84, CHR 0xAA]"

fun toLowerCase :: "string \<Rightarrow> string" where
  "toLowerCase [] = []"
| "toLowerCase (c # s) =
     (if prefix kelvin_sign (c # s) then CHR ''k'' # toLowerCase (drop 2 s)
      else lower_char c # toLowerCase s)"

declare toLowerCase.simps [simp del]

subsection \<open>The RPC endpoints\<close>

text \<open>
  A promise of the provider library that is raced against a timer: it settles after a
  number of milliseconds with a rejection or a value, or it never settles.
\<close>

datatype 'a timed = Settles nat "exn + 'a" | Never

text \<open>
  What the endpoints answer. A provider is identified with its URL.
  \<open>getNetwork\<close> stands for \<^verbatim>\<open>new ethers.JsonRpcProvider(url)\<close> followed by
  \<^verbatim>\<open>provider.getNetwork()\<close>; the other fields are the provider's and the ERC-20
  contract's methods the callbacks use. Apart from \<open>getBalance\<close>, which the code
  races against a timer, every promise is taken to settle.
\<close>

record rpc =
  getNetwork :: "string \<Rightarrow> exn + unit"
  call :: "string \<Rightarrow> json \<Rightarrow> exn + string"
  estimateGas_rpc :: "string \<Rightarrow> json \<Rightarrow> exn + int"
  getTransactionCount :: "string \<Rightarrow> string \<Rightarrow> exn + int"
  broadcastTransaction_rpc :: "string \<Rightarrow> string \<Rightarrow> exn + string"
  getBalance :: "string \<Rightarrow> string \<Rightarrow> int timed"
  balanceOf :: "string \<Rightarrow> string \<Rightarrow> string \<Rightarrow> exn + int"

subsection \<open>fetchWithRetry\<close>

text \<open>
  One pass of the \<^verbatim>\<open>for (const url of urls)\<close> loop, with \<^verbatim>\<open>lastError\<close> as
  the accumulator. An attempt is \<open>getNetwork\<close> and then the callback; a failure of
  either is caught, stored and the loop goes on. The events are the endpoints tried.
\<close>

fun fetchWithRetry_loop ::
  "(string \<Rightarrow> exn + unit) \<Rightarrow> (string \<Rightarrow> exn + 'a) \<Rightarrow> exn option \<Rightarrow> string list
     \<Rightarrow> event list \<times> (exn + 'a)" where
  "fetchWithRetry_loop gn callback lastError [] =
     ([], Inl (case lastError of Some e \<Rightarrow> e | None \<Rightarrow> Error ''All RPCs failed''))"
| "fetchWithRetry_loop gn callback lastError (url # urls) =
     (case gn url of
        Inl e \<Rightarrow>
          (case fetchWithRetry_loop gn callback (Some e) urls of
             (evs, r) \<Rightarrow> (RpcAttempt url # evs, r))
      | Inr _ \<Rightarrow>
          (case callback url of
             Inr v \<Rightarrow> ([RpcAttempt url], Inr v)
           | Inl e \<Rightarrow>
               (case fetchWithRetry_loop gn callback (Some e) urls of
                  (evs, r) \<Rightarrow> (RpcAttempt url # evs, r))))"

definition fetchWithRetry ::
  "rpc \<Rightarrow> string list \<Rightarrow> (string \<Rightarrow> exn + 'a) \<Rightarrow> event list \<times> (exn + 'a)" where
  "fetchWithRetry net urls callback = fetchWithRetry_loop (getNetwork net) callback None urls"

text \<open>
  The outcome of one endpoint's attempt, as the loop body computes it.
\<close>

definition attempt :: "rpc \<Rightarrow> (string \<Rightarrow> exn + 'a) \<Rightarrow> string \<Rightarrow> exn + 'a" where
  "attempt net callback url =
     (case getNetwork net url of Inl e \<Rightarrow> Inl e | Inr _ \<Rightarrow> callback url)"

text \<open>
  The callers hand \<^verbatim>\<open>fetchWithRetry\<close> whatever the table lookup gave them. An
  inherited member is not iterable: the \<^verbatim>\<open>for ... of\<close> raises before any attempt.
\<close>

definition fetchWithRetry_member ::
  "rpc \<Rightarrow> string list member \<Rightarrow> (string \<Rightarrow> exn + 'a) \<Rightarrow> event list \<times> (exn + 'a)" where
  "fetchWithRetry_member net rpcUrls callback =
     (case rpcUrls of
        Own urls \<Rightarrow> fetchWithRetry net urls callback
      | _ \<Rightarrow> ([], Inl (TypeError ''urls is not iterable'')))"

subsection \<open>formatValue\<close>

definition digit_char :: "nat \<Rightarrow> char" where
  "digit_char d = ''0123456789'' ! d"

text \<open>The decimal digits of a natural number, most significant first.\<close>

fun decimal :: "nat \<Rightarrow> string" where
  "decimal n =
     (if 10 \<le> n then decimal (n div 10) @ [digit_char (n mod 10)] else [digit_char n])"

declare decimal.simps [simp del]

text \<open>
  \<^verbatim>\<open>ethers.formatUnits(val, decimals)\<close> of the provider library: the decimal
  expansion of \<open>val / 10 ^ decimals\<close>, with the fraction's trailing zeros trimmed down
  to one digit, and no decimal point at all when \<open>decimals\<close> is zero. The library
  holds the value as a signed fixed-point number of 512 bits and throws on a value that
  does not fit.
\<close>

definition fixed_limit :: int where
  "fixed_limit = 2 ^ 511"

definition trim_fraction :: "string \<Rightarrow> string" where
  "trim_fraction f =
     (let t = rev (dropWhile (\<lambda>c. c = CHR ''0'') (rev f)) in if t = [] then ''0'' else t)"

definition formatUnits :: "int \<Rightarrow> nat \<Rightarrow> exn + string" where
  "formatUnits val decimals =
     (let negative = (if val < 0 then ''-'' else []);
          a = nat \<bar>val\<bar>;
          whole = decimal (a div 10 ^ decimals);
          frac = decimal (a mod 10 ^ decimals);
          padded = replicate (decimals - length frac) (CHR ''0'') @ frac
      in if val < - fixed_limit \<or> fixed_limit \<le> val then Inl (Error ''overflow'')
         else if decimals = 0 then Inr (negative @ decimal a)
         else Inr (negative @ whole @ ''.'' @ trim_fraction padded))"

text \<open>
  The source compares \<^verbatim>\<open>parseFloat(formatted)\<close> with \<^verbatim>\<open>0\<close> and
  \<^verbatim>\<open>0.0001\<close>. For an integer \<open>val\<close> and the two scales the code uses (18 and 6)
  these comparisons come out as the exact ones on \<open>val / 10 ^ decimals\<close>, which is
  how they are written here. What \<^verbatim>\<open>formatUnits\<close> throws is caught and shown as
  "0.00".
\<close>

definition formatValue :: "int \<Rightarrow> nat \<Rightarrow> string" where
  "formatValue val decimals =
     (case formatUnits val decimals of
        Inl e \<Rightarrow> ''0.00''
      | Inr formatted \<Rightarrow>
          if val = 0 then ''0.00''
          else if val * 10000 < 10 ^ decimals then ''< 0.0001''
          else if CHR ''.'' \<in> set formatted
            then takeWhile (\<lambda>c. c \<noteq> CHR ''.'') formatted @ ''.'' @
                 take 4 (tl (dropWhile (\<lambda>c. c \<noteq> CHR ''.'') formatted))
            else formatted)"

subsection \<open>The five network operations\<close>

text \<open>\<^verbatim>\<open>String.prototype.includes\<close>: the needle occurs somewhere in the string.\<close>

fun str_includes :: "string \<Rightarrow> string \<Rightarrow> bool" where
  "str_includes [] needle = (needle = [])"
| "str_includes (c # cs) needle = (prefix needle (c # cs) \<or> str_includes cs needle)"

text \<open>\<^verbatim>\<open>e.message || fallback\<close>: an empty message is falsy.\<close>

definition message_or :: "exn \<Rightarrow> string \<Rightarrow> string" where
  "message_or e fallback = (if message e = [] then fallback else message e)"

definition ethCall :: "rpc \<Rightarrow> json \<Rightarrow> string \<Rightarrow> event list \<times> (exn + string)" where
  "ethCall net tx networkKey =
     (let rpcUrls = table_get NETWORKS (toLowerCase networkKey) in
      if rpcUrls = Undefined then ([], Inl (Error (''Unsupported network key: '' @ networkKey)))
      else
        (case fetchWithRetry_member net rpcUrls (\<lambda>provider. call net provider tx) of
           (evs, Inr r) \<Rightarrow> (evs, Inr r)
         | (evs, Inl e) \<Rightarrow>
             (evs @ [LoggerLog (''Call failed on '' @ networkKey @ '': '' @
                                message_or e ''eth_call failed'') Failure ''RPC''],
              Inl e)))"

definition estimateGas :: "rpc \<Rightarrow> json \<Rightarrow> string \<Rightarrow> event list \<times> (exn + int)" where
  "estimateGas net tx networkKey =
     (let rpcUrls = table_get NETWORKS (toLowerCase networkKey) in
      if rpcUrls = Undefined then ([], Inl (Error (''Unsupported network key: '' @ networkKey)))
      else
        (case fetchWithRetry_member net rpcUrls (\<lambda>provider. estimateGas_rpc net provider tx) of
           (evs, Inr r) \<Rightarrow> (evs, Inr r)
         | (evs, Inl e) \<Rightarrow>
             (evs @ [LoggerLog (''Estimate Gas failed on '' @ networkKey @ '': '' @
                                message_or e ''estimateGas failed'') Failure ''RPC''],
              Inl e)))"

definition fetchNonce :: "rpc \<Rightarrow> string \<Rightarrow> string \<Rightarrow> event list \<times> (exn + int)" where
  "fetchNonce net address networkKey =
     (let rpcUrls = table_get NETWORKS (toLowerCase networkKey) in
      if rpcUrls = Undefined then ([], Inl (Error (''Unsupported network key: '' @ networkKey)))
      else
        (case fetchWithRetry_member net rpcUrls
                (\<lambda>provider. getTransactionCount net provider address) of
           (evs, Inr r) \<Rightarrow> (evs, Inr r)
         | (evs, Inl e) \<Rightarrow>
             (evs @ [LoggerLog (''Nonce fetch failed on '' @ networkKey @ '': '' @
                                message_or e ''Fetch Nonce failed'') Failure ''RPC''],
              Inl e)))"

definition broadcastTransaction :: "rpc \<Rightarrow> string \<Rightarrow> string \<Rightarrow> event list \<times> (exn + string)" where
  "broadcastTransaction net rawTx networkKey =
     (let rpcUrls = table_get NETWORKS (toLowerCase networkKey) in
      if rpcUrls = Undefined then ([], Inl (Error (''Unsupported network key: '' @ networkKey)))
      else
        (case fetchWithRetry_member net rpcUrls
                (\<lambda>provider. broadcastTransaction_rpc net provider rawTx) of
           (evs, Inr r) \<Rightarrow> (evs, Inr r)
         | (evs, Inl e) \<Rightarrow>
             (evs @ [LoggerLog (''Broadcast failed on '' @ networkKey @ '': '' @
                                message_or e ''Broadcast failed'') Failure ''RPC''],
              Inl e)))"

subsection \<open>fetchBalance\<close>

record AssetValues =
  eth :: string
  wei :: int
  usdt :: string
  usdc :: string

datatype balance_result = Assets AssetValues | BalanceError

text \<open>
  \<^verbatim>\<open>Promise.race([provider.getBalance(address), timeoutPromise])\<close>: the timer
  rejects with "RPC Timeout" after \<open>ms\<close> milliseconds; the query wins when it settles
  before that.
\<close>

definition race_timeout :: "nat \<Rightarrow> 'a timed \<Rightarrow> exn + 'a" where
  "race_timeout ms p =
     (case p of
        Settles t r \<Rightarrow> if t < ms then r else Inl (Error ''RPC Timeout'')
      | Never \<Rightarrow> Inl (Error ''RPC Timeout''))"

text \<open>
  A token lookup: zero when the network has no such token, and zero again when the
  contract call rejects (\<^verbatim>\<open>.catch(() => BigInt(0))\<close>).
\<close>

definition token_balance :: "rpc \<Rightarrow> string \<Rightarrow> string option \<Rightarrow> string \<Rightarrow> int" where
  "token_balance net provider token address =
     (case token of
        None \<Rightarrow> 0
      | Some contract \<Rightarrow>
          if contract = [] then 0
          else (case balanceOf net provider contract address of Inl _ \<Rightarrow> 0 | Inr v \<Rightarrow> v))"

text \<open>
  The callback \<^verbatim>\<open>fetchBalance\<close> hands to the retry wrapper: one endpoint's attempt.
  \<^verbatim>\<open>Promise.all\<close> rejects as soon as the native-currency promise rejects; the two
  token promises cannot reject.
\<close>

definition balance_attempt :: "rpc \<Rightarrow> token_set \<Rightarrow> string \<Rightarrow> string \<Rightarrow> exn + AssetValues" where
  "balance_attempt net tokens address provider =
     (let ethBalance = race_timeout 5000 (getBalance net provider address);
          usdtBal = token_balance net provider (usdt_address tokens) address;
          usdcBal = token_balance net provider (usdc_address tokens) address
      in case ethBalance of
           Inl e \<Rightarrow> Inl e
         | Inr ethBal \<Rightarrow>
             Inr \<lparr>eth = formatValue ethBal 18, wei = ethBal,
                  usdt = formatValue usdtBal 6, usdc = formatValue usdcBal 6\<rparr>)"

text \<open>\<^verbatim>\<open>NETWORKS[key] || NETWORKS['mainnet']\<close> and \<^verbatim>\<open>TOKEN_ADDRESSES[key] || {}\<close>.\<close>

definition balance_endpoints :: "string \<Rightarrow> string list member" where
  "balance_endpoints networkKey =
     (case table_get NETWORKS (toLowerCase networkKey) of
        Undefined \<Rightarrow> table_get NETWORKS ''mainnet''
      | found \<Rightarrow> found)"

definition balance_tokens :: "string \<Rightarrow> token_set" where
  "balance_tokens networkKey =
     (case table_get TOKEN_ADDRESSES (toLowerCase networkKey) of
        Own tokens \<Rightarrow> tokens
      | Inherited \<Rightarrow> no_tokens
      | Undefined \<Rightarrow> no_tokens)"

definition fetchBalance :: "rpc \<Rightarrow> string \<Rightarrow> string \<Rightarrow> event list \<times> balance_result" where
  "fetchBalance net address networkKey =
     (let rpcUrls = balance_endpoints networkKey;
          tokens = balance_tokens networkKey
      in case fetchWithRetry_member net rpcUrls (balance_attempt net tokens address) of
           (evs, Inr a) \<Rightarrow> (evs, Assets a)
         | (evs, Inl e) \<Rightarrow>
             (let msg = message_or e ''Unknown Error'' in
              (evs @ (if \<not> str_includes msg ''rate limit''
                      then [LoggerLog (''Scanning failed for '' @ networkKey @ '': '' @ msg)
                                      Warning ''RPC'']
                      else []),
               BalanceError)))"

subsection \<open>What a list of endpoints does to a callback\<close>

text \<open>
  The two outcomes the specification tells apart, in its own words: the endpoint at
  position \<open>i\<close> is the first of the list whose attempt succeeds, with the value
  \<open>v\<close>; every endpoint of the list fails.
\<close>

definition succeeds_first_at ::
  "rpc \<Rightarrow> (string \<Rightarrow> exn + 'a) \<Rightarrow> string list \<Rightarrow> nat \<Rightarrow> 'a \<Rightarrow> bool" where
  "succeeds_first_at net callback urls i v \<longleftrightarrow>
     i < length urls \<and> list_all (\<lambda>u. isl (attempt net callback u)) (take i urls) \<and>
     attempt net callback (urls ! i) = Inr v"

definition all_fail :: "rpc \<Rightarrow> (string \<Rightarrow> exn + 'a) \<Rightarrow> string list \<Rightarrow> bool" where
  "all_fail net callback urls \<longleftrightarrow> list_all (\<lambda>u. isl (attempt net callback u)) urls"

section \<open>Fixtures\<close>

text \<open>
  A network in which the first three mainnet endpoints are unreachable and the fourth
  answers (scenario C of the specification), and one in which nothing answers.
\<close>

definition scenario_net :: rpc where
  "scenario_net =
     \<lparr>getNetwork = (\<lambda>url. if url = ''https://cloudflare-eth.com'' then Inr ()
                           else Inl (Error ''could not detect network'')),
      call = (\<lambda>url tx. Inr ''0x2a''),
      estimateGas_rpc = (\<lambda>url tx. Inr 21000),
      getTransactionCount = (\<lambda>url address. Inr 7),
      broadcastTransaction_rpc = (\<lambda>url rawTx. Inl (Error ''nonce too low'')),
      getBalance = (\<lambda>url address. Settles 120 (Inr 1500000000000000000)),
      balanceOf = (\<lambda>url contract address. Inl (Error ''execution reverted''))\<rparr>"

definition dead_net :: rpc where
  "dead_net =
     \<lparr>getNetwork = (\<lambda>url. Inl (Error (''unreachable: '' @ url))),
      call = (\<lambda>url tx. Inr ''0x''),
      estimateGas_rpc = (\<lambda>url tx. Inr 0),
      getTransactionCount = (\<lambda>url address. Inr 0),
      broadcastTransaction_rpc = (\<lambda>url rawTx. Inr ''0x''),
      getBalance = (\<lambda>url address. Never),
      balanceOf = (\<lambda>url contract address. Inr 0)\<rparr>"

text \<open>
  A network whose endpoints all refuse with a rate-limit error that carries a tag.
\<close>

definition throttled_net :: "string \<Rightarrow> rpc" where
  "throttled_net tag =
     dead_net\<lparr>getNetwork := (\<lambda>url. Inl (Error (''rate limit exceeded, retry in '' @ tag)))\<rparr>"

definition mainnet_urls :: "string list" where
  "mainnet_urls = [''https://eth.llamarpc.com'', ''https://rpc.ankr.com/eth'',
                   ''https://1rpc.io/eth'', ''https://cloudflare-eth.com'']"

section \<open>The vault (types.ts, hooks/useVault.ts)\<close>

subsection \<open>Data model\<close>

text \<open>
  \<^verbatim>\<open>WalletMetadata\<close> is an open mapping from keys to strings, kept in the order
  in which JavaScript lists an object's own keys. The fields \<^verbatim>\<open>id\<close>, \<^verbatim>\<open>name\<close> and \<^verbatim>\<open>address\<close> of
  \<^verbatim>\<open>WalletData\<close> carry a prefix here.
\<close>

type_synonym WalletMetadata = "(string \<times> string) list"

record WalletData =
  wallet_id :: string
  wallet_name :: string
  wallet_address :: string
  encryptedPrivateKey :: string
  metadata :: "WalletMetadata option"
  createdAt :: int

datatype AttributeType = text_attr | select_attr | date_attr

record AttributeDefinition =
  attr_key :: string
  attr_label :: string
  attr_type :: AttributeType
  attr_options :: "string list option"

record VaultSettings =
  autoLockMinutes :: int
  enableLogging :: bool
  attributeDefinitions :: "AttributeDefinition list"

text \<open>
  \<^verbatim>\<open>Partial<VaultSettings>\<close>: any of the fields may be absent. This is also what
  the \<^verbatim>\<open>settings\<close> of a parsed store are, since a store written by an older
  version may lack a field.
\<close>

record PartialSettings =
  autoLockMinutes_opt :: "int option"
  enableLogging_opt :: "bool option"
  attributeDefinitions_opt :: "AttributeDefinition list option"

record VaultStore =
  store_wallets :: "WalletData list"
  store_masterHash :: string
  store_settings :: PartialSettings
  store_checksum :: string

definition DEFAULT_SETTINGS :: VaultSettings where
  "DEFAULT_SETTINGS =
     \<lparr>autoLockMinutes = 15, enableLogging = True,
      attributeDefinitions =
        [\<lparr>attr_key = ''notes'', attr_label = ''Notes'', attr_type = text_attr,
          attr_options = None\<rparr>]\<rparr>"

text \<open>The object spread \<^verbatim>\<open>{ ...base, ...over }\<close> on settings.\<close>

definition spread_settings :: "VaultSettings \<Rightarrow> PartialSettings \<Rightarrow> VaultSettings" where
  "spread_settings base over =
     \<lparr>autoLockMinutes =
        (case autoLockMinutes_opt over of Some v \<Rightarrow> v | None \<Rightarrow> autoLockMinutes base),
      enableLogging =
        (case enableLogging_opt over of Some v \<Rightarrow> v | None \<Rightarrow> enableLogging base),
      attributeDefinitions =
        (case attributeDefinitions_opt over of Some v \<Rightarrow> v
         | None \<Rightarrow> attributeDefinitions base)\<rparr>"

text \<open>Settings with every field present, as \<^verbatim>\<open>persist\<close> writes them.\<close>

definition all_present :: "VaultSettings \<Rightarrow> PartialSettings" where
  "all_present s =
     \<lparr>autoLockMinutes_opt = Some (autoLockMinutes s),
      enableLogging_opt = Some (enableLogging s),
      attributeDefinitions_opt = Some (attributeDefinitions s)\<rparr>"

text \<open>
  The order of an object's own keys: first the keys that are array indices (the decimal
  form, with no leading zero, of a number below \<open>2 ^ 32 - 1\<close>) by ascending value, then
  the other keys in the order in which they were created.
\<close>

definition numeric_value :: "string \<Rightarrow> nat" where
  "numeric_value k =
     foldl (\<lambda>n c. 10 * n + (case map_of (zip ''0123456789'' [0, 1, 2, 3, 4, 5, 6, 7, 8, 9]) c of
                               Some d \<Rightarrow> d | None \<Rightarrow> 0)) 0 k"

definition array_index :: "string \<Rightarrow> bool" where
  "array_index k \<longleftrightarrow>
     k \<noteq> [] \<and> list_all (\<lambda>c. c \<in> set ''0123456789'') k \<and>
     (k = ''0'' \<or> hd k \<noteq> CHR ''0'') \<and> numeric_value k < 4294967295"

definition own_keys_order :: "(string \<times> 'a) list \<Rightarrow> (string \<times> 'a) list" where
  "own_keys_order kvs =
     sort_key (\<lambda>kv. numeric_value (fst kv)) (filter (\<lambda>kv. array_index (fst kv)) kvs) @
     filter (\<lambda>kv. \<not> array_index (fst kv)) kvs"

text \<open>
  The object spread \<^verbatim>\<open>{ ...w.metadata, ...metadata }\<close>: the keys of the first are
  created first and take the second's value where it has one; the second's new keys are
  created after them. An absent \<^verbatim>\<open>w.metadata\<close> spreads as the empty object.
\<close>

definition spread_metadata :: "WalletMetadata \<Rightarrow> WalletMetadata \<Rightarrow> WalletMetadata" where
  "spread_metadata base over =
     own_keys_order
       (map (\<lambda>(k, v). (k, case map_of over k of Some v' \<Rightarrow> v' | None \<Rightarrow> v)) base @
        filter (\<lambda>(k, v). k \<notin> fst ` set base) over)"

subsection \<open>The platform the vault runs on\<close>

text \<open>
  What the browser provides and the repository does not define: the SHA-256 digest of a
  string's UTF-8 bytes, in hexadecimal; \<^verbatim>\<open>JSON.stringify\<close> on the two shapes the
  vault serialises; \<^verbatim>\<open>JSON.parse\<close> on the stored text and on a backup. They are
  parameters of the model.

  \<open>parse_store\<close> is \<open>None\<close> where \<^verbatim>\<open>JSON.parse\<close> throws or gives a value whose
  property reads throw. \<open>parse_backup\<close> is \<open>Inl\<close> of what \<^verbatim>\<open>JSON.parse\<close> throws.
  A parsed backup is seen through what the code asks of it: what its \<^verbatim>\<open>wallets\<close>
  property is and, when that is an array, what its entries are. An entry is
  \<^verbatim>\<open>null\<close>, on which the read of \<^verbatim>\<open>id\<close> throws, or a wallet record; the
  code checks no entry, and the file text reaches it unchecked from the settings page.
\<close>

datatype backup_entry = NullEntry | WalletEntry WalletData

datatype backup_wallets = Falsy | NotAnArray | WalletArray "backup_entry list"

datatype backup = BackupNull | Backup backup_wallets

record platform =
  sha256_hex :: "string \<Rightarrow> string"
  stringify_data :: "WalletData list \<times> PartialSettings \<Rightarrow> string"
  stringify_store :: "VaultStore \<Rightarrow> string"
  parse_store :: "string \<Rightarrow> VaultStore option"
  parse_backup :: "string \<Rightarrow> exn + backup"

definition generateIntegrityHash :: "platform \<Rightarrow> WalletData list \<times> PartialSettings \<Rightarrow> string" where
  "generateIntegrityHash pf data = sha256_hex pf (stringify_data pf data)"

definition hashPassword :: "platform \<Rightarrow> string \<Rightarrow> string" where
  "hashPassword pf password = sha256_hex pf password"

subsection \<open>The hook's state and operations\<close>

text \<open>
  The React state of \<^verbatim>\<open>useVault\<close> together with the one entry of
  \<^verbatim>\<open>localStorage\<close> it owns (\<open>None\<close>: no such entry). Each operation sees the
  state the previous one left.
\<close>

record vault =
  isLocked :: bool
  hasVault :: bool
  wallets :: "WalletData list"
  settings :: VaultSettings
  masterPassword :: string
  localStorage :: "string option"

definition initial_vault :: "string option \<Rightarrow> vault" where
  "initial_vault stored =
     \<lparr>isLocked = True, hasVault = (case stored of None \<Rightarrow> False | Some s \<Rightarrow> s \<noteq> []),
      wallets = [], settings = DEFAULT_SETTINGS, masterPassword = [],
      localStorage = stored\<rparr>"

definition persist ::
  "platform \<Rightarrow> WalletData list \<Rightarrow> VaultSettings \<Rightarrow> string \<Rightarrow> vault \<Rightarrow> vault" where
  "persist pf newWallets newSettings passHash st =
     (let data = (newWallets, all_present newSettings);
          checksum = generateIntegrityHash pf data;
          store = \<lparr>store_wallets = newWallets, store_masterHash = passHash,
                   store_settings = all_present newSettings, store_checksum = checksum\<rparr>
      in st\<lparr>localStorage := Some (stringify_store pf store)\<rparr>)"

definition createVault :: "platform \<Rightarrow> string \<Rightarrow> vault \<Rightarrow> vault" where
  "createVault pf password st =
     (let hash = hashPassword pf password;
          st1 = st\<lparr>masterPassword := password, isLocked := False, hasVault := True,
                    wallets := []\<rparr>
      in persist pf [] (settings st) hash st1)"

definition unlockVault :: "platform \<Rightarrow> string \<Rightarrow> vault \<Rightarrow> event list \<times> vault \<times> bool" where
  "unlockVault pf password st =
     (case localStorage st of
        None \<Rightarrow> ([], st, False)
      | Some stored \<Rightarrow>
          if stored = [] then ([], st, False)
          else
            (case parse_store pf stored of
               None \<Rightarrow> ([ConsoleError ''Vault corruption''], st, False)
             | Some parsed \<Rightarrow>
                 (let inputHash = hashPassword pf password in
                  if store_masterHash parsed = inputHash then
                    (let dataToCheck = (store_wallets parsed, store_settings parsed);
                         calculatedChecksum = generateIntegrityHash pf dataToCheck;
                         evs = (if store_checksum parsed \<noteq> [] \<and>
                                   store_checksum parsed \<noteq> calculatedChecksum
                                then [ConsoleWarn
                                  ''Vault Integrity Warning: Data might have been tampered with externally.'']
                                else [])
                     in (evs,
                         st\<lparr>wallets := store_wallets parsed,
                            settings := spread_settings DEFAULT_SETTINGS (store_settings parsed),
                            masterPassword := password,
                            isLocked := False\<rparr>,
                         True))
                  else ([], st, False))))"

definition lockVault :: "vault \<Rightarrow> vault" where
  "lockVault st = st\<lparr>masterPassword := [], isLocked := True\<rparr>"

definition addWallet :: "platform \<Rightarrow> WalletData \<Rightarrow> vault \<Rightarrow> vault" where
  "addWallet pf wallet st =
     (let newWallets = wallets st @ [wallet];
          st1 = st\<lparr>wallets := newWallets\<rparr>;
          hash = hashPassword pf (masterPassword st)
      in persist pf newWallets (settings st) hash st1)"

definition removeWallet :: "platform \<Rightarrow> string \<Rightarrow> vault \<Rightarrow> vault" where
  "removeWallet pf ident st =
     (let newWallets = filter (\<lambda>w. wallet_id w \<noteq> ident) (wallets st);
          st1 = st\<lparr>wallets := newWallets\<rparr>;
          hash = hashPassword pf (masterPassword st)
      in persist pf newWallets (settings st) hash st1)"

definition updateWalletMetadata :: "platform \<Rightarrow> string \<Rightarrow> WalletMetadata \<Rightarrow> vault \<Rightarrow> vault" where
  "updateWalletMetadata pf ident md st =
     (let newWallets =
            map (\<lambda>w. if wallet_id w = ident
                      then w\<lparr>metadata :=
                             Some (spread_metadata
                                     (case metadata w of None \<Rightarrow> [] | Some m \<Rightarrow> m) md)\<rparr>
                      else w)
                (wallets st);
          st1 = st\<lparr>wallets := newWallets\<rparr>;
          hash = hashPassword pf (masterPassword st)
      in persist pf newWallets (settings st) hash st1)"

definition updateSettings :: "platform \<Rightarrow> PartialSettings \<Rightarrow> vault \<Rightarrow> vault" where
  "updateSettings pf newSettings st =
     (let updated = spread_settings (settings st) newSettings;
          st1 = st\<lparr>settings := updated\<rparr>;
          hash = hashPassword pf (masterPassword st)
      in persist pf (wallets st) updated hash st1)"

text \<open>
  \<^verbatim>\<open>backup.wallets.filter((w) => !currentIds.has(w.id))\<close>: the entries are visited
  in order, and the read of \<^verbatim>\<open>id\<close> off a \<^verbatim>\<open>null\<close> entry throws, which ends
  the filter with nothing kept.
\<close>

fun filter_new :: "string set \<Rightarrow> backup_entry list \<Rightarrow> exn + WalletData list" where
  "filter_new currentIds [] = Inr []"
| "filter_new currentIds (NullEntry # entries) =
     Inl (TypeError ''Cannot read properties of null (reading 'id')'')"
| "filter_new currentIds (WalletEntry w # entries) =
     (case filter_new currentIds entries of
        Inl e \<Rightarrow> Inl e
      | Inr kept \<Rightarrow> Inr (if wallet_id w \<notin> currentIds then w # kept else kept))"

text \<open>
  \<^verbatim>\<open>importVaultData\<close> answers \<^verbatim>\<open>{ success: true, count }\<close> or
  \<^verbatim>\<open>{ success: false, error }\<close>. Everything thrown inside its \<^verbatim>\<open>try\<close> ends
  in the second: what \<^verbatim>\<open>JSON.parse\<close> throws, the TypeError of reading
  \<^verbatim>\<open>wallets\<close> off \<^verbatim>\<open>null\<close>, the "Invalid format" of the validation, and
  the TypeError of the filter on a \<^verbatim>\<open>null\<close> entry. All of them are thrown before
  \<^verbatim>\<open>setWallets\<close> and \<^verbatim>\<open>persist\<close> are reached.
\<close>

datatype import_result = ImportSuccess nat | ImportFailure exn

definition importVaultData :: "platform \<Rightarrow> string \<Rightarrow> string \<Rightarrow> vault \<Rightarrow> vault \<times> import_result" where
  "importVaultData pf jsonString currentPassword st =
     (case parse_backup pf jsonString of
        Inl e \<Rightarrow> (st, ImportFailure e)
      | Inr BackupNull \<Rightarrow>
          (st, ImportFailure
                 (TypeError ''Cannot read properties of null (reading 'wallets')''))
      | Inr (Backup Falsy) \<Rightarrow> (st, ImportFailure (Error ''Invalid format''))
      | Inr (Backup NotAnArray) \<Rightarrow> (st, ImportFailure (Error ''Invalid format''))
      | Inr (Backup (WalletArray entries)) \<Rightarrow>
          (let currentIds = set (map wallet_id (wallets st)) in
           case filter_new currentIds entries of
             Inl e \<Rightarrow> (st, ImportFailure e)
           | Inr toAdd \<Rightarrow>
               (let newWallets = wallets st @ toAdd;
                    st1 = st\<lparr>wallets := newWallets\<rparr>;
                    hash = hashPassword pf currentPassword
                in (persist pf newWallets (settings st) hash st1,
                    ImportSuccess (length toAdd)))))"

subsection \<open>Sequences of persisting operations and the checksum invariant\<close>

datatype vault_op =
    CreateVault string
  | AddWallet WalletData
  | RemoveWallet string
  | UpdateWalletMetadata string WalletMetadata
  | UpdateSettings PartialSettings
  | ImportVaultData string string

fun apply_op :: "platform \<Rightarrow> vault \<Rightarrow> vault_op \<Rightarrow> vault" where
  "apply_op pf st (CreateVault password) = createVault pf password st"
| "apply_op pf st (AddWallet wallet) = addWallet pf wallet st"
| "apply_op pf st (RemoveWallet ident) = removeWallet pf ident st"
| "apply_op pf st (UpdateWalletMetadata ident md) = updateWalletMetadata pf ident md st"
| "apply_op pf st (UpdateSettings newSettings) = updateSettings pf newSettings st"
| "apply_op pf st (ImportVaultData jsonString currentPassword) =
     fst (importVaultData pf jsonString currentPassword st)"

definition run_ops :: "platform \<Rightarrow> vault \<Rightarrow> vault_op list \<Rightarrow> vault" where
  "run_ops pf st ops = foldl (apply_op pf) st ops"

text \<open>
  The stored text is the serialisation of a store whose checksum is the integrity hash of
  that store's own wallets and settings.
\<close>

definition checksum_invariant :: "platform \<Rightarrow> vault \<Rightarrow> bool" where
  "checksum_invariant pf st \<longleftrightarrow>
     (\<exists>store. localStorage st = Some (stringify_store pf store) \<and>
              store_checksum store =
                generateIntegrityHash pf (store_wallets store, store_settings store))"

section \<open>Fixtures for the vault\<close>

definition wallet_A :: WalletData where
  "wallet_A = \<lparr>wallet_id = ''id-1'', wallet_name = ''A'', wallet_address = ''0xaaa'',
               encryptedPrivateKey = ''blob-A'', metadata = None, createdAt = 1\<rparr>"

definition wallet_B :: WalletData where
  "wallet_B = \<lparr>wallet_id = ''id-2'', wallet_name = ''A'', wallet_address = ''0xbbb'',
               encryptedPrivateKey = ''blob-B'', metadata = Some [(''notes'', ''cold'')],
               createdAt = 2\<rparr>"

definition no_settings :: PartialSettings where
  "no_settings = \<lparr>autoLockMinutes_opt = None, enableLogging_opt = None,
                  attributeDefinitions_opt = None\<rparr>"

text \<open>
  The backup texts \<^verbatim>\<open>{"wallets":[null]}\<close> and \<^verbatim>\<open>{"wallets":5}\<close>.
\<close>

definition quoted :: "string \<Rightarrow> string" where
  "quoted s = [CHR 0x22] @ s @ [CHR 0x22]"

definition null_entry_backup :: string where
  "null_entry_backup = ''{'' @ quoted ''wallets'' @ '':[null]}''"

definition number_backup :: string where
  "number_backup = ''{'' @ quoted ''wallets'' @ '':5}''"

text \<open>
  A stand-in platform: a "digest" that wraps its input, a serialisation of the data that
  lists the wallet ids, and a parser that knows two stored texts and five backups (the
  text "backup" stands for the export of a vault that holds the wallets A and B).
\<close>

definition toy_digest :: "string \<Rightarrow> string" where
  "toy_digest s = ''sha256('' @ s @ '')''"

definition toy_data :: "WalletData list \<times> PartialSettings \<Rightarrow> string" where
  "toy_data d = concat (map (\<lambda>w. wallet_id w @ '';'') (fst d))"

definition tampered_store :: VaultStore where
  "tampered_store =
     \<lparr>store_wallets = [wallet_A, wallet_B], store_masterHash = toy_digest ''secret1'',
      store_settings = no_settings\<lparr>autoLockMinutes_opt := Some 5\<rparr>,
      store_checksum = toy_digest ''id-1;''\<rparr>"

definition blank_checksum_store :: VaultStore where
  "blank_checksum_store =
     \<lparr>store_wallets = [wallet_A, wallet_B], store_masterHash = toy_digest ''secret1'',
      store_settings = no_settings, store_checksum = []\<rparr>"

definition toy_platform :: platform where
  "toy_platform =
     \<lparr>sha256_hex = toy_digest,
      stringify_data = toy_data,
      stringify_store = (\<lambda>store. ''store['' @ toy_data (store_wallets store, store_settings store)
                                  @ '']'' @ store_checksum store),
      parse_store = (\<lambda>s. if s = ''tampered'' then Some tampered_store
                         else if s = ''blank'' then Some blank_checksum_store
                         else None),
      parse_backup =
        (\<lambda>s. if s = ''backup''
               then Inr (Backup (WalletArray [WalletEntry wallet_A, WalletEntry wallet_B]))
             else if s = null_entry_backup then Inr (Backup (WalletArray [NullEntry]))
             else if s = ''null'' then Inr BackupNull
             else if s = ''{}'' then Inr (Backup Falsy)
             else if s = number_backup then Inr (Backup NotAnArray)
             else Inl (SyntaxError (''Unexpected token in JSON: '' @ s)))\<rparr>"

text \<open>An unlocked vault that holds the wallet A and has persisted it.\<close>

definition vault_with_A :: vault where
  "vault_with_A = addWallet toy_platform wallet_A
                    (createVault toy_platform ''secret1'' (initial_vault None))"

section \<open>Encryption of key material (services/cryptoService.ts)\<close>

text \<open>
  The Web Crypto API, the text codec and the base64/JSON envelope are the browser's, not the
  repository's: they are parameters. \<open>'s\<close> is the type of strings, \<open>'b\<close> the type
  of the encoded blob, \<open>'k\<close> the type of derived keys.

  \<^item> \<open>TextEncoder_encode\<close>, \<open>TextDecoder_decode\<close>:
    \<^verbatim>\<open>new TextEncoder().encode(s)\<close> and \<^verbatim>\<open>new TextDecoder().decode(bytes)\<close>;
  \<^item> \<open>deriveKey\<close>: \<^verbatim>\<open>importKey\<close> of the key material followed by
    \<^verbatim>\<open>deriveKey\<close> with PBKDF2, SHA-256, 100000 iterations, for AES-GCM with 256 bits;
  \<^item> \<open>aes_gcm_encrypt key iv plaintext\<close> and \<open>aes_gcm_decrypt key iv data\<close>:
    \<^verbatim>\<open>crypto.subtle.encrypt\<close> and \<^verbatim>\<open>decrypt\<close>; the latter is \<open>None\<close> when the
    operation rejects;
  \<^item> \<open>btoa_stringify\<close>: \<^verbatim>\<open>btoa(JSON.stringify(packet))\<close>; \<open>parse_atob\<close>:
    \<^verbatim>\<open>JSON.parse(atob(blob))\<close> read as a packet, \<open>None\<close> when either throws.
\<close>

type_synonym bytes = "8 word list"

record packet =
  packet_salt :: bytes
  packet_iv :: bytes
  packet_data :: bytes

record ('s, 'b, 'k) webcrypto =
  TextEncoder_encode :: "'s \<Rightarrow> bytes"
  TextDecoder_decode :: "bytes \<Rightarrow> 's"
  deriveKey :: "bytes \<Rightarrow> bytes \<Rightarrow> 'k"
  aes_gcm_encrypt :: "'k \<Rightarrow> bytes \<Rightarrow> bytes \<Rightarrow> bytes"
  aes_gcm_decrypt :: "'k \<Rightarrow> bytes \<Rightarrow> bytes \<Rightarrow> bytes option"
  btoa_stringify :: "packet \<Rightarrow> 'b"
  parse_atob :: "'b \<Rightarrow> packet option"

definition getKey :: "('s, 'b, 'k) webcrypto \<Rightarrow> 's \<Rightarrow> bytes \<Rightarrow> 'k" where
  "getKey wc password salt = deriveKey wc (TextEncoder_encode wc password) salt"

text \<open>
  \<^verbatim>\<open>encryptData\<close> draws a 16-byte salt and a 12-byte IV from
  \<^verbatim>\<open>crypto.getRandomValues\<close>; here they are arguments.
\<close>

definition encryptData :: "('s, 'b, 'k) webcrypto \<Rightarrow> bytes \<Rightarrow> bytes \<Rightarrow> 's \<Rightarrow> 's \<Rightarrow> 'b" where
  "encryptData wc salt iv data password =
     (let key = getKey wc password salt;
          encrypted = aes_gcm_encrypt wc key iv (TextEncoder_encode wc data)
      in btoa_stringify wc
           \<lparr>packet_salt = salt, packet_iv = iv, packet_data = encrypted\<rparr>)"

definition decryptData :: "('s, 'b, 'k) webcrypto \<Rightarrow> 'b \<Rightarrow> 's \<Rightarrow> exn + 's" where
  "decryptData wc encryptedBase64 password =
     (case parse_atob wc encryptedBase64 of
        None \<Rightarrow> Inl (Error ''Decryption failed. Password incorrect or data corrupted.'')
      | Some p \<Rightarrow>
          (let key = getKey wc password (packet_salt p) in
           case aes_gcm_decrypt wc key (packet_iv p) (packet_data p) of
             None \<Rightarrow> Inl (Error ''Decryption failed. Password incorrect or data corrupted.'')
           | Some decrypted \<Rightarrow> Inr (TextDecoder_decode wc decrypted)))"

section \<open>Signing operations (services/cryptoService.ts)\<close>

text \<open>
  The signing library. \<open>address_of_key\<close> is \<^verbatim>\<open>new ethers.Wallet(key).address\<close>,
  \<open>None\<close> when the constructor throws; the three signing methods are the wallet's,
  \<open>keccak256\<close> is \<^verbatim>\<open>ethers.keccak256\<close>. A payload is \<^verbatim>\<open>any\<close>: a parsed value
  or \<^verbatim>\<open>undefined\<close> (\<open>None\<close>).
\<close>

record ethers =
  address_of_key :: "string \<Rightarrow> string option"
  wallet_signMessage :: "string \<Rightarrow> json option \<Rightarrow> exn + string"
  wallet_signTransaction :: "string \<Rightarrow> json option \<Rightarrow> exn + string"
  wallet_signTypedData :: "string \<Rightarrow> json \<Rightarrow> json \<Rightarrow> json \<Rightarrow> exn + string"
  keccak256 :: "string \<Rightarrow> string"

definition invalid_key :: exn where
  "invalid_key = TypeError ''invalid private key''"

text \<open>\<^verbatim>\<open>v.k\<close> where \<^verbatim>\<open>v\<close> may be \<^verbatim>\<open>undefined\<close>.\<close>

definition get_member :: "json option \<Rightarrow> string \<Rightarrow> exn + json option" where
  "get_member v k =
     (case v of
        None \<Rightarrow> Inl (TypeError (''Cannot read properties of undefined (reading '' @ k @ '')''))
      | Some j \<Rightarrow> get_prop j k)"

text \<open>\<^verbatim>\<open>v?.k\<close>: \<^verbatim>\<open>undefined\<close> when \<^verbatim>\<open>v\<close> is \<^verbatim>\<open>null\<close> or \<^verbatim>\<open>undefined\<close>.\<close>

definition get_optional :: "json option \<Rightarrow> string \<Rightarrow> json option" where
  "get_optional v k =
     (case v of
        None \<Rightarrow> None
      | Some j \<Rightarrow> (case get_prop j k of Inl _ \<Rightarrow> None | Inr r \<Rightarrow> r))"

definition createWalletFromKey :: "ethers \<Rightarrow> string \<Rightarrow> string \<times> bool \<times> string" where
  "createWalletFromKey lib privateKey =
     (let pk = (if prefix ''0x'' privateKey then privateKey else ''0x'' @ privateKey) in
      case address_of_key lib pk of
        Some a \<Rightarrow> (a, True, pk)
      | None \<Rightarrow> ([], False, []))"

definition signMessage :: "ethers \<Rightarrow> string \<Rightarrow> json option \<Rightarrow> exn + string" where
  "signMessage lib privateKey msg =
     (case address_of_key lib privateKey of
        None \<Rightarrow> Inl invalid_key
      | Some _ \<Rightarrow> wallet_signMessage lib privateKey msg)"

definition signTransaction :: "ethers \<Rightarrow> string \<Rightarrow> json option \<Rightarrow> exn + string" where
  "signTransaction lib privateKey transaction =
     (case address_of_key lib privateKey of
        None \<Rightarrow> Inl invalid_key
      | Some _ \<Rightarrow> wallet_signTransaction lib privateKey transaction)"

definition typed_data_error :: exn where
  "typed_data_error = Error ''TypedData payload must contain domain, types, and value''"

text \<open>
  \<^verbatim>\<open>signTypedData\<close>: the wallet is built first; then
  \<^verbatim>\<open>!payload.domain || !payload.types || !payload.value\<close> is evaluated from the left,
  and the first property read is the one that throws when the payload is
  \<^verbatim>\<open>null\<close> or \<^verbatim>\<open>undefined\<close>.
\<close>

definition signTypedData :: "ethers \<Rightarrow> string \<Rightarrow> json option \<Rightarrow> exn + string" where
  "signTypedData lib privateKey payload =
     (case address_of_key lib privateKey of
        None \<Rightarrow> Inl invalid_key
      | Some _ \<Rightarrow>
          (case get_member payload ''domain'' of
             Inl e \<Rightarrow> Inl e
           | Inr domain \<Rightarrow>
               if \<not> truthy_opt domain \<or>
                  \<not> truthy_opt (get_optional payload ''types'') \<or>
                  \<not> truthy_opt (get_optional payload ''value'')
               then Inl typed_data_error
               else
                 (case (domain, get_optional payload ''types'', get_optional payload ''value'') of
                    (Some d, Some t, Some v) \<Rightarrow> wallet_signTypedData lib privateKey d t v
                  | _ \<Rightarrow> Inl typed_data_error)))"

section \<open>The request dispatcher (the signer tool's handleProcessRequest)\<close>

subsection \<open>Requests and responses (types.ts)\<close>

text \<open>
  The fields \<^verbatim>\<open>type\<close> and \<^verbatim>\<open>address\<close> of \<^verbatim>\<open>ApiRequest\<close> carry a prefix.
  The fields the interface declares as strings are strings here; the payload is
  \<^verbatim>\<open>any\<close>.
\<close>

record ApiRequest =
  req_type :: string
  walletLabel :: "string option"
  req_address :: "string option"
  network :: "string option"
  payload :: "json option"

datatype response_status = success | error

record ServiceResponse =
  r_status :: response_status
  r_operation :: "string option"
  r_result :: "string option"
  r_error :: "string option"
  r_code :: "string option"
  r_balance_wei :: "string option"
  r_balance_eth :: "string option"
  r_gas :: "string option"
  r_signedTx :: "string option"
  r_txHash :: "string option"
  r_signature :: "string option"
  r_wallets :: "(string \<times> string) list option"
  r_address :: "string option"
  r_walletLabel :: "string option"
  r_walletId :: "string option"

text \<open>\<^verbatim>\<open>{ status: 'success', operation: request.type }\<close>, every other field absent.\<close>

definition success_response :: "string \<Rightarrow> ServiceResponse" where
  "success_response operation =
     \<lparr>r_status = success, r_operation = Some operation, r_result = None, r_error = None,
      r_code = None, r_balance_wei = None, r_balance_eth = None, r_gas = None,
      r_signedTx = None, r_txHash = None, r_signature = None, r_wallets = None,
      r_address = None, r_walletLabel = None, r_walletId = None\<rparr>"

text \<open>\<^verbatim>\<open>{ status: 'error', code: 'EXECUTION_ERROR', error: err.message }\<close>.\<close>

definition error_response :: "exn \<Rightarrow> ServiceResponse" where
  "error_response err =
     \<lparr>r_status = error, r_operation = None, r_result = None, r_error = Some (message err),
      r_code = Some ''EXECUTION_ERROR'', r_balance_wei = None, r_balance_eth = None,
      r_gas = None, r_signedTx = None, r_txHash = None, r_signature = None, r_wallets = None,
      r_address = None, r_walletLabel = None, r_walletId = None\<rparr>"

subsection \<open>What the component is given and what it leaves behind\<close>

text \<open>
  Besides the wallets, the password and the three libraries, a run reads the parse of the
  request text (\<open>None\<close> where the inner \<^verbatim>\<open>try\<close> throws), and, for an import, a
  fresh UUID, the clock, and the random salt and IV of the encryption.
\<close>

record signer_env =
  parse_request :: "string \<Rightarrow> ApiRequest option"
  randomUUID :: string
  now :: int
  random_salt :: bytes
  random_iv :: bytes

text \<open>
  What one run leaves: the events in order, the wallet handed to \<^verbatim>\<open>onAddWallet\<close> if
  any, the signature kept for a later broadcast if any (with the payload's
  \<^verbatim>\<open>chainId\<close>), and the response shown.
\<close>

record dispatch =
  events :: "event list"
  added :: "WalletData option"
  lastSignature :: "(string \<times> json) option"
  response :: ServiceResponse

text \<open>The single quote, and a template literal's rendering of an optional string.\<close>

definition quote :: string where
  "quote = [CHR 0x27]"

definition template :: "string option \<Rightarrow> string" where
  "template v = (case v of None \<Rightarrow> ''undefined'' | Some s \<Rightarrow> s)"

text \<open>
  A property of the payload that the request documents as a string: present when the
  payload has it as a string that is not empty. A value of another type lies outside the
  documented shape of a request and counts as absent here.
\<close>

definition string_member :: "json option \<Rightarrow> string \<Rightarrow> string option" where
  "string_member v k =
     (case get_optional v k of
        Some (JStr s) \<Rightarrow> if s = [] then None else Some s
      | _ \<Rightarrow> None)"

text \<open>\<^verbatim>\<open>toString()\<close> of a bigint.\<close>

definition bigint_toString :: "int \<Rightarrow> string" where
  "bigint_toString v = (if 0 \<le> v then decimal (nat v) else CHR ''-'' # decimal (nat \<bar>v\<bar>))"

subsection \<open>1. Vault management methods\<close>

definition vault_methods ::
  "ethers \<Rightarrow> (string, string, 'k) webcrypto \<Rightarrow> signer_env \<Rightarrow> WalletData list \<Rightarrow> string
     \<Rightarrow> ApiRequest \<Rightarrow> exn + WalletData option \<times> ServiceResponse" where
  "vault_methods lib wc env ws password request =
     (if req_type request = ''vault_listWallets'' then
        Inr (None, (success_response (req_type request))
                     \<lparr>r_wallets := Some (map (\<lambda>w. (wallet_name w, wallet_address w)) ws)\<rparr>)
      else if req_type request = ''vault_getAddress'' then
        (case find (\<lambda>w. Some (wallet_name w) = walletLabel request) ws of
           None \<Rightarrow> Inl (Error (''Wallet not found: '' @ template (walletLabel request)))
         | Some w \<Rightarrow>
             Inr (None, (success_response (req_type request))
                          \<lparr>r_address := Some (wallet_address w)\<rparr>))
      else if req_type request = ''vault_importPrivateKey'' then
        (case (string_member (payload request) ''label'',
               string_member (payload request) ''privateKey'') of
           (Some label, Some privateKey) \<Rightarrow>
             if list_ex (\<lambda>w. wallet_name w = label) ws
             then Inl (Error (''Wallet label '' @ quote @ label @ quote @ '' already exists''))
             else
               (case createWalletFromKey lib privateKey of
                  (address, valid, normalizedKey) \<Rightarrow>
                    if \<not> valid then Inl (Error ''Invalid Private Key'')
                    else
                      (let encrypted = encryptData wc (random_salt env) (random_iv env)
                                         privateKey password;
                           newWallet = \<lparr>wallet_id = randomUUID env, wallet_name = label,
                                         wallet_address = address,
                                         encryptedPrivateKey = encrypted,
                                         metadata = Some [(''notes'', ''Imported via API'')],
                                         createdAt = now env\<rparr>
                       in Inr (Some newWallet,
                               (success_response (req_type request))
                                 \<lparr>r_walletId := Some (wallet_id newWallet),
                                  r_address := Some (wallet_address newWallet),
                                  r_walletLabel := Some (wallet_name newWallet)\<rparr>)))
         | _ \<Rightarrow>
             Inl (Error (''Import requires '' @ quote @ ''label'' @ quote @ '' and '' @ quote @
                         ''privateKey'' @ quote @ '' in payload'')))
      else Inl (Error ''Unknown vault method''))"

subsection \<open>2. Read-only RPC methods\<close>

definition rpc_methods :: "rpc \<Rightarrow> ApiRequest \<Rightarrow> event list \<times> (exn + ServiceResponse)" where
  "rpc_methods net request =
     (let net_key = (case network request of
                       None \<Rightarrow> ''mainnet''
                     | Some n \<Rightarrow> if n = [] then ''mainnet'' else n);
          started = [AddLog (''Executing Read-Only/RPC Op on '' @ net_key @ ''...'')];
          finished = [AddLog ''RPC Operation Successful.''];
          resp = success_response (req_type request)
      in
      if req_type request = ''eth_getBalance'' then
        (case (case req_address request of
                 None \<Rightarrow> string_member (payload request) ''address''
               | Some a \<Rightarrow> if a = [] then string_member (payload request) ''address''
                           else Some a) of
           None \<Rightarrow> (started, Inl (Error (''Missing '' @ quote @ ''address'' @ quote)))
         | Some addr \<Rightarrow>
             (case fetchBalance net addr net_key of
                (evs, BalanceError) \<Rightarrow>
                  (started @ evs, Inl (Error ''RPC Error fetching balance''))
              | (evs, Assets bal) \<Rightarrow>
                  (started @ evs @ finished,
                   Inr (resp\<lparr>r_balance_wei := Some (bigint_toString (wei bal)),
                             r_balance_eth := Some (eth bal)\<rparr>))))
      else if req_type request = ''eth_call'' then
        (case payload request of
           None \<Rightarrow> (started, Inl (Error ''Missing payload''))
         | Some tx \<Rightarrow>
             if \<not> truthy tx then (started, Inl (Error ''Missing payload''))
             else
               (case ethCall net tx net_key of
                  (evs, Inl e) \<Rightarrow> (started @ evs, Inl e)
                | (evs, Inr res) \<Rightarrow>
                    (started @ evs @ finished, Inr (resp\<lparr>r_result := Some res\<rparr>))))
      else if req_type request = ''eth_estimateGas'' then
        (case payload request of
           None \<Rightarrow> (started, Inl (Error ''Missing payload''))
         | Some tx \<Rightarrow>
             if \<not> truthy tx then (started, Inl (Error ''Missing payload''))
             else
               (case estimateGas net tx net_key of
                  (evs, Inl e) \<Rightarrow> (started @ evs, Inl e)
                | (evs, Inr gas) \<Rightarrow>
                    (started @ evs @ finished,
                     Inr (resp\<lparr>r_gas := Some (bigint_toString gas)\<rparr>))))
      else if req_type request = ''eth_sendRawTransaction'' then
        (case string_member (payload request) ''raw'' of
           None \<Rightarrow> (started, Inl (Error ''Missing payload.raw (hex string)''))
         | Some raw \<Rightarrow>
             (case broadcastTransaction net raw net_key of
                (evs, Inl e) \<Rightarrow> (started @ evs, Inl e)
              | (evs, Inr txHash) \<Rightarrow>
                  (started @ evs @ finished, Inr (resp\<lparr>r_txHash := Some txHash\<rparr>))))
      else (started @ finished, Inr resp))"

subsection \<open>3. Signature methods\<close>

text \<open>
  \<^verbatim>\<open>if (request.walletLabel) targetWallet = wallets.find(w => w.name === request.walletLabel)\<close>.
\<close>

definition resolve_wallet :: "WalletData list \<Rightarrow> ApiRequest \<Rightarrow> WalletData option" where
  "resolve_wallet ws request =
     (case walletLabel request of
        None \<Rightarrow> None
      | Some label \<Rightarrow> if label = [] then None else find (\<lambda>w. wallet_name w = label) ws)"

definition signature_methods ::
  "ethers \<Rightarrow> (string, string, 'k) webcrypto \<Rightarrow> WalletData list \<Rightarrow> string \<Rightarrow> ApiRequest
     \<Rightarrow> event list \<times> (exn + (string \<times> json) option \<times> ServiceResponse)" where
  "signature_methods lib wc ws password request =
     (case resolve_wallet ws request of
        None \<Rightarrow>
          ([], Inl (Error (''Operation '' @ req_type request @
                           '' requires a valid 'walletLabel' present in the vault.'')))
      | Some targetWallet \<Rightarrow>
          (let resolved = [AddLog (''Resolved Wallet Label '' @ quote @
                                   template (walletLabel request) @ quote),
                           AddLog (''Decrypting key for '' @ wallet_name targetWallet @ ''...''),
                           DecryptCall (encryptedPrivateKey targetWallet)];
               signed = [AddLog ''Signature generated successfully.'',
                         LoggerLog (''Signed '' @ req_type request @ '' with '' @
                                    wallet_name targetWallet) Success ''Signer''];
               resp = (success_response (req_type request))
                        \<lparr>r_walletLabel := Some (wallet_name targetWallet)\<rparr>
           in
           case decryptData wc (encryptedPrivateKey targetWallet) password of
             Inl e \<Rightarrow> (resolved, Inl e)
           | Inr privateKey \<Rightarrow>
               (let decrypted = resolved @ [AddLog ''Decryption successful.''] in
                if req_type request = ''personal_sign'' then
                  (case signMessage lib privateKey (payload request) of
                     Inl e \<Rightarrow> (decrypted @ [AddLog ''Signing message...''], Inl e)
                   | Inr sig \<Rightarrow>
                       (decrypted @ [AddLog ''Signing message...''] @ signed,
                        Inr (None, resp\<lparr>r_signature := Some sig\<rparr>)))
                else if req_type request = ''eth_signTransaction'' then
                  (case signTransaction lib privateKey (payload request) of
                     Inl e \<Rightarrow> (decrypted @ [AddLog ''Signing transaction...''], Inl e)
                   | Inr sig \<Rightarrow>
                       (case get_member (payload request) ''chainId'' of
                          Inl e \<Rightarrow> (decrypted @ [AddLog ''Signing transaction...''], Inl e)
                        | Inr chainId \<Rightarrow>
                            (decrypted @ [AddLog ''Signing transaction...''] @ signed,
                             Inr ((case chainId of
                                     None \<Rightarrow> None
                                   | Some c \<Rightarrow> if truthy c then Some (sig, c) else None),
                                  resp\<lparr>r_signedTx := Some sig,
                                       r_txHash := Some (keccak256 lib sig)\<rparr>))))
                else if req_type request = ''eth_signTypedData'' then
                  (case signTypedData lib privateKey (payload request) of
                     Inl e \<Rightarrow> (decrypted @ [AddLog ''Signing typed data (EIP-712)...''], Inl e)
                   | Inr sig \<Rightarrow>
                       (decrypted @ [AddLog ''Signing typed data (EIP-712)...''] @ signed,
                        Inr (None, resp\<lparr>r_signature := Some sig\<rparr>)))
                else (decrypted, Inl (Error ''Unsupported operation type'')))))"

subsection \<open>handleProcessRequest\<close>

text \<open>The \<^verbatim>\<open>catch\<close> of the outer \<^verbatim>\<open>try\<close>.\<close>

definition failed :: "event list \<Rightarrow> exn \<Rightarrow> dispatch" where
  "failed evs err =
     \<lparr>events = evs @ [AddLog (''Error: '' @ message err),
                      LoggerLog (''Op failed: '' @ message err) Failure ''Signer''],
      added = None, lastSignature = None, response = error_response err\<rparr>"

definition handleProcessRequest ::
  "rpc \<Rightarrow> ethers \<Rightarrow> (string, string, 'k) webcrypto \<Rightarrow> signer_env \<Rightarrow> WalletData list \<Rightarrow> string
     \<Rightarrow> string \<Rightarrow> dispatch" where
  "handleProcessRequest net lib wc env ws password requestJson =
     (let received = [AddLog ''Received API request...''] in
      case parse_request env requestJson of
        None \<Rightarrow> failed received (Error ''Invalid JSON format.'')
      | Some request \<Rightarrow>
          (let parsed = received @ [AddLog (''Payload parsed. Type: '' @ req_type request)] in
           if prefix ''vault_'' (req_type request) then
             (case vault_methods lib wc env ws password request of
                Inl e \<Rightarrow> failed parsed e
              | Inr (new, resp) \<Rightarrow>
                  \<lparr>events = parsed, added = new, lastSignature = None, response = resp\<rparr>)
           else if req_type request \<in> set [''eth_getBalance'', ''eth_call'', ''eth_estimateGas'',
                                            ''eth_sendRawTransaction''] then
             (case rpc_methods net request of
                (evs, Inl e) \<Rightarrow> failed (parsed @ evs) e
              | (evs, Inr resp) \<Rightarrow>
                  \<lparr>events = parsed @ evs, added = None, lastSignature = None,
                   response = resp\<rparr>)
           else
             (case signature_methods lib wc ws password request of
                (evs, Inl e) \<Rightarrow> failed (parsed @ evs) e
              | (evs, Inr (kept, resp)) \<Rightarrow>
                  \<lparr>events = parsed @ evs, added = None, lastSignature = kept,
                   response = resp\<rparr>)))"

section \<open>Fixtures for the signer tool\<close>

text \<open>
  A stand-in signing library that knows one key, a stand-in for the browser's cryptography
  that encodes two strings (the "cipher" prefixes the key to the message) and knows one
  blob, the encryption of the key under the password "pw", and an environment that parses
  two request texts.
\<close>

definition toy_ethers :: ethers where
  "toy_ethers =
     \<lparr>address_of_key = (\<lambda>k. if k = ''0xkey'' then Some ''0xaaa'' else None),
      wallet_signMessage = (\<lambda>k m. Inr ''0xsigned-message''),
      wallet_signTransaction = (\<lambda>k t. Inr ''0xsigned-transaction''),
      wallet_signTypedData = (\<lambda>k d t v. Inr ''0xsigned-typed-data''),
      keccak256 = (\<lambda>s. ''keccak('' @ s @ '')'')\<rparr>"

definition toy_webcrypto :: "(string, string, bytes) webcrypto" where
  "toy_webcrypto =
     \<lparr>TextEncoder_encode = (\<lambda>s. if s = ''pw'' then [112, 119]
                                else if s = ''0xkey'' then [48, 120, 107, 101, 121] else []),
      TextDecoder_decode = (\<lambda>b. if b = [112, 119] then ''pw''
                                else if b = [48, 120, 107, 101, 121] then ''0xkey'' else []),
      deriveKey = (\<lambda>material salt. material @ salt),
      aes_gcm_encrypt = (\<lambda>key iv plaintext. key @ plaintext),
      aes_gcm_decrypt = (\<lambda>key iv data. if take (length key) data = key
                                          then Some (drop (length key) data) else None),
      btoa_stringify = (\<lambda>p. ''blob-A''),
      parse_atob = (\<lambda>b. if b = ''blob-A''
                         then Some \<lparr>packet_salt = [1], packet_iv = [2],
                                    packet_data = [112, 119, 1, 48, 120, 107, 101, 121]\<rparr>
                         else None)\<rparr>"

definition sign_tx_for_A :: ApiRequest where
  "sign_tx_for_A =
     \<lparr>req_type = ''eth_signTransaction'', walletLabel = Some ''A'', req_address = None,
      network = None, payload = Some (JObj [(''to'', JStr ''0xDESTINATION''), (''chainId'', JNum 1)])\<rparr>"

definition toy_env :: signer_env where
  "toy_env =
     \<lparr>parse_request = (\<lambda>s. if s = ''sign transaction with A'' then Some sign_tx_for_A
                           else if s = ''sign message with B''
                             then Some (sign_tx_for_A\<lparr>req_type := ''personal_sign'',
                                          walletLabel := Some ''B'', payload := Some (JStr ''hello'')\<rparr>)
                           else None),
      randomUUID = ''00000000-0000-4000-8000-000000000000'',
      now = 1700000000000,
      random_salt = [1], random_iv = [2]\<rparr>"

text \<open>
  The request of scenario C:
  \<^verbatim>\<open>{"type":"eth_getBalance","address":"0xabc","network":"mainnet"}\<close>.
\<close>

definition balance_request :: ApiRequest where
  "balance_request =
     \<lparr>req_type = ''eth_getBalance'', walletLabel = None, req_address = Some ''0xabc'',
      network = Some ''mainnet'', payload = None\<rparr>"

definition typed_payload_empty_value :: json where
  "typed_payload_empty_value =
     JObj [(''domain'', JObj [(''name'', JStr ''Ether Mail'')]),
           (''types'', JObj [(''Person'', JArr [])]),
           (''value'', JStr [])]"

definition typed_payload_complete :: json where
  "typed_payload_complete =
     JObj [(''domain'', JObj [(''name'', JStr ''Ether Mail'')]),
           (''types'', JObj [(''Person'', JArr [])]),
           (''value'', JObj [(''name'', JStr ''Bob'')])]"

section \<open>The text codec of the platform\<close>

text \<open>
  A JavaScript string is a sequence of 16-bit code units. \<^verbatim>\<open>TextEncoder\<close> takes it
  as a sequence of scalar values (a high surrogate followed by a low one is one
  supplementary code point; any other surrogate becomes U+FFFD) and writes each in UTF-8.
  \<^verbatim>\<open>TextDecoder\<close>, as \<^verbatim>\<open>new TextDecoder()\<close> builds it, decodes UTF-8 with
  U+FFFD in place of ill-formed input, drops one leading U+FEFF, and writes the code points
  as code units. This section follows the Encoding Standard, not code of the repository.
\<close>

type_synonym code_units = "16 word list"

definition high_surrogate :: "16 word \<Rightarrow> bool" where
  "high_surrogate u \<longleftrightarrow> 0xD800 \<le> u \<and> u \<le> 0xDBFF"

definition low_surrogate :: "16 word \<Rightarrow> bool" where
  "low_surrogate u \<longleftrightarrow> 0xDC00 \<le> u \<and> u \<le> 0xDFFF"

fun scalar_values :: "code_units \<Rightarrow> nat list" where
  "scalar_values [] = []"
| "scalar_values [u] = [if high_surrogate u \<or> low_surrogate u then 0xFFFD else unat u]"
| "scalar_values (u # v # us) =
     (if high_surrogate u \<and> low_surrogate v
      then (0x10000 + (unat u - 0xD800) * 0x400 + (unat v - 0xDC00)) # scalar_values us
      else (if high_surrogate u \<or> low_surrogate u then 0xFFFD else unat u) #
           scalar_values (v # us))"

definition utf8_bytes :: "nat \<Rightarrow> bytes" where
  "utf8_bytes c =
     (if c < 0x80 then [of_nat c]
      else if c < 0x800 then [of_nat (0xC0 + c div 0x40), of_nat (0x80 + c mod 0x40)]
      else if c < 0x10000 then
        [of_nat (0xE0 + c div 0x1000), of_nat (0x80 + c div 0x40 mod 0x40),
         of_nat (0x80 + c mod 0x40)]
      else
        [of_nat (0xF0 + c div 0x40000), of_nat (0x80 + c div 0x1000 mod 0x40),
         of_nat (0x80 + c div 0x40 mod 0x40), of_nat (0x80 + c mod 0x40)])"

definition text_encode :: "code_units \<Rightarrow> bytes" where
  "text_encode s = concat (map utf8_bytes (scalar_values s))"

text \<open>
  The UTF-8 decoder: the code point collected so far, the number of continuation bytes
  still needed, and the bounds the next continuation byte must keep. A byte that breaks a
  sequence yields U+FFFD and is read again as the start of a new sequence; so does input
  that ends inside a sequence.
\<close>

fun utf8_decode_from :: "nat \<Rightarrow> nat \<Rightarrow> nat \<Rightarrow> nat \<Rightarrow> bytes \<Rightarrow> nat list" where
  "utf8_decode_from cp 0 lower upper [] = []"
| "utf8_decode_from cp (Suc needed) lower upper [] = [0xFFFD]"
| "utf8_decode_from cp 0 lower upper (b # bs) =
     (let x = unat b in
      if x \<le> 0x7F then x # utf8_decode_from 0 0 0x80 0xBF bs
      else if 0xC2 \<le> x \<and> x \<le> 0xDF then utf8_decode_from (x mod 0x20) 1 0x80 0xBF bs
      else if 0xE0 \<le> x \<and> x \<le> 0xEF then
        utf8_decode_from (x mod 0x10) 2
          (if x = 0xE0 then 0xA0 else 0x80) (if x = 0xED then 0x9F else 0xBF) bs
      else if 0xF0 \<le> x \<and> x \<le> 0xF4 then
        utf8_decode_from (x mod 8) 3
          (if x = 0xF0 then 0x90 else 0x80) (if x = 0xF4 then 0x8F else 0xBF) bs
      else 0xFFFD # utf8_decode_from 0 0 0x80 0xBF bs)"
| "utf8_decode_from cp (Suc needed) lower upper (b # bs) =
     (let x = unat b in
      if x < lower \<or> upper < x then 0xFFFD # utf8_decode_from 0 0 0x80 0xBF (b # bs)
      else if needed = 0 then (cp * 0x40 + x mod 0x40) # utf8_decode_from 0 0 0x80 0xBF bs
      else utf8_decode_from (cp * 0x40 + x mod 0x40) needed 0x80 0xBF bs)"

declare utf8_decode_from.simps [simp del]

definition utf8_decode :: "bytes \<Rightarrow> nat list" where
  "utf8_decode bs = utf8_decode_from 0 0 0x80 0xBF bs"

definition strip_bom :: "nat list \<Rightarrow> nat list" where
  "strip_bom cs = (case cs of [] \<Rightarrow> [] | c # rest \<Rightarrow> if c = 0xFEFF then rest else cs)"

definition utf16_units :: "nat \<Rightarrow> code_units" where
  "utf16_units c =
     (if c < 0x10000 then [of_nat c]
      else [of_nat (0xD800 + (c - 0x10000) div 0x400),
            of_nat (0xDC00 + (c - 0x10000) mod 0x400)])"

definition text_decode :: "bytes \<Rightarrow> code_units" where
  "text_decode bs = concat (map utf16_units (strip_bom (utf8_decode bs)))"

text \<open>
  A string of well-formed UTF-16: every high surrogate is followed by a low one, and no
  low surrogate stands elsewhere.
\<close>

fun well_formed :: "code_units \<Rightarrow> bool" where
  "well_formed [] = True"
| "well_formed [u] = (\<not> high_surrogate u \<and> \<not> low_surrogate u)"
| "well_formed (u # v # us) =
     (if high_surrogate u then low_surrogate v \<and> well_formed us
      else \<not> low_surrogate u \<and> well_formed (v # us))"

text \<open>A Unicode scalar value: a code point that is not a surrogate.\<close>

definition scalar :: "nat \<Rightarrow> bool" where
  "scalar c \<longleftrightarrow> c < 0x110000 \<and> \<not> (0xD800 \<le> c \<and> c \<le> 0xDFFF)"

section \<open>Fixtures for the encryption\<close>

text \<open>
  The platform's text codec with a stand-in for its cryptography: the derived key is the
  key material followed by the salt, the "cipher" prefixes key and IV to the message and
  checks them on the way back, and the envelope is the packet itself.
\<close>

definition codec_webcrypto :: "(code_units, packet, bytes) webcrypto" where
  "codec_webcrypto =
     \<lparr>TextEncoder_encode = text_encode,
      TextDecoder_decode = text_decode,
      deriveKey = (\<lambda>material salt. material @ salt),
      aes_gcm_encrypt = (\<lambda>key iv plaintext. key @ iv @ plaintext),
      aes_gcm_decrypt = (\<lambda>key iv data. if take (length (key @ iv)) data = key @ iv
                                          then Some (drop (length (key @ iv)) data) else None),
      btoa_stringify = (\<lambda>p. p),
      parse_atob = Some\<rparr>"

definition demo_salt :: bytes where
  "demo_salt = [1, 2, 3, 4, 5, 6, 7, 8, 9, 10, 11, 12, 13, 14, 15, 16]"

definition demo_iv :: bytes where
  "demo_iv = [21, 22, 23, 24, 25, 26, 27, 28, 29, 30, 31, 32]"

text \<open>The strings "pw", "0xkey" followed by U+1F600, and "a" after U+FEFF.\<close>

definition demo_password :: code_units where
  "demo_password = [0x70, 0x77]"

definition demo_plaintext :: code_units where
  "demo_plaintext = [0x30, 0x78, 0x6B, 0x65, 0x79, 0xD83D, 0xDE00]"

definition bom_plaintext :: code_units where
  "bom_plaintext = [0xFEFF, 0x61]"

chapter \<open>Verified properties\<close>

section \<open>The retry wrapper\<close>

lemma loop_fail_step:
  "attempt net cb u = Inl e \<Longrightarrow>
   fetchWithRetry_loop (getNetwork net) cb le (u # us) =
     (RpcAttempt u # fst (fetchWithRetry_loop (getNetwork net) cb (Some e) us),
      snd (fetchWithRetry_loop (getNetwork net) cb (Some e) us))"
  by (auto simp: attempt_def split: sum.splits prod.splits)

lemma loop_ok_step:
  "attempt net cb u = Inr v \<Longrightarrow>
   fetchWithRetry_loop (getNetwork net) cb le (u # us) = ([RpcAttempt u], Inr v)"
  by (auto simp: attempt_def split: sum.splits prod.splits)

lemma loop_all_fail:
  "\<forall>u \<in> set urls. isl (attempt net cb u) \<Longrightarrow>
   fetchWithRetry_loop (getNetwork net) cb le urls =
     (map RpcAttempt urls,
      Inl (if urls = [] then (case le of Some e \<Rightarrow> e | None \<Rightarrow> Error ''All RPCs failed'')
           else projl (attempt net cb (last urls))))"
proof (induction urls arbitrary: le)
  case Nil
  then show ?case by simp
next
  case (Cons u us)
  then obtain e where e: "attempt net cb u = Inl e"
    by (cases "attempt net cb u") auto
  from Cons have rest: "\<forall>u \<in> set us. isl (attempt net cb u)" by simp
  show ?case
    unfolding loop_fail_step [OF e] Cons.IH [OF rest]
    using e by simp
qed

lemma loop_first_success:
  "i < length urls \<Longrightarrow> \<forall>j<i. isl (attempt net cb (urls ! j)) \<Longrightarrow>
   attempt net cb (urls ! i) = Inr v \<Longrightarrow>
   fetchWithRetry_loop (getNetwork net) cb le urls = (map RpcAttempt (take (Suc i) urls), Inr v)"
proof (induction urls arbitrary: i le)
  case Nil
  then show ?case by simp
next
  case (Cons u us)
  show ?case
  proof (cases i)
    case 0
    with Cons.prems have "attempt net cb u = Inr v" by simp
    from loop_ok_step [OF this] 0 show ?thesis by simp
  next
    case (Suc k)
    with Cons.prems have "isl (attempt net cb u)" by auto
    then obtain e where e: "attempt net cb u = Inl e"
      by (cases "attempt net cb u") auto
    from Suc Cons.prems have k: "k < length us" "\<forall>j<k. isl (attempt net cb (us ! j))"
      "attempt net cb (us ! k) = Inr v" by auto
    show ?thesis
      unfolding loop_fail_step [OF e] Cons.IH [OF k] using Suc by simp
  qed
qed

lemma loop_fails_only_if_all_fail:
  "isl (snd (fetchWithRetry_loop (getNetwork net) cb le urls)) \<Longrightarrow>
   \<forall>u \<in> set urls. isl (attempt net cb u)"
proof (induction urls arbitrary: le)
  case Nil
  then show ?case by simp
next
  case (Cons u us)
  show ?case
  proof (cases "attempt net cb u")
    case (Inl e)
    from Cons.prems have "isl (snd (fetchWithRetry_loop (getNetwork net) cb (Some e) us))"
      unfolding loop_fail_step [OF Inl] by simp
    from Cons.IH [OF this] Inl show ?thesis by simp
  next
    case (Inr v)
    from Cons.prems show ?thesis unfolding loop_ok_step [OF Inr] by simp
  qed
qed

text \<open>
  The wrapper on its own, for any callback and any list: it tries the endpoints in the
  listed order and stops at the first whose attempt succeeds, returning that result; it
  fails exactly when every endpoint of the list failed, and for a list that is not empty
  the exception it raises is the one of the last endpoint. With no endpoint at all it
  raises "All RPCs failed".
\<close>

lemma fetchWithRetry_in_listed_order:
  "(\<forall>i v. i < length urls \<and> (\<forall>j<i. isl (attempt net cb (urls ! j))) \<and>
          attempt net cb (urls ! i) = Inr v \<longrightarrow>
          fetchWithRetry net urls cb = (map RpcAttempt (take (Suc i) urls), Inr v)) \<and>
   (isl (snd (fetchWithRetry net urls cb)) \<longleftrightarrow> (\<forall>u \<in> set urls. isl (attempt net cb u))) \<and>
   (urls \<noteq> [] \<and> (\<forall>u \<in> set urls. isl (attempt net cb u)) \<longrightarrow>
      fetchWithRetry net urls cb = (map RpcAttempt urls, attempt net cb (last urls))) \<and>
   (urls = [] \<longrightarrow> fetchWithRetry net urls cb = ([], Inl (Error ''All RPCs failed'')))"
proof (intro conjI allI impI)
  fix i v
  assume "i < length urls \<and> (\<forall>j<i. isl (attempt net cb (urls ! j))) \<and>
          attempt net cb (urls ! i) = Inr v"
  then show "fetchWithRetry net urls cb = (map RpcAttempt (take (Suc i) urls), Inr v)"
    unfolding fetchWithRetry_def by (intro loop_first_success) auto
next
  show "isl (snd (fetchWithRetry net urls cb)) \<longleftrightarrow> (\<forall>u \<in> set urls. isl (attempt net cb u))"
    unfolding fetchWithRetry_def
    using loop_fails_only_if_all_fail [of net cb None urls]
      loop_all_fail [of urls net cb None] by auto
next
  assume a: "urls \<noteq> [] \<and> (\<forall>u \<in> set urls. isl (attempt net cb u))"
  then have "isl (attempt net cb (last urls))" by simp
  then show "fetchWithRetry net urls cb = (map RpcAttempt urls, attempt net cb (last urls))"
    unfolding fetchWithRetry_def using a loop_all_fail [of urls net cb None]
    by (cases "attempt net cb (last urls)") auto
next
  assume "urls = []"
  then show "fetchWithRetry net urls cb = ([], Inl (Error ''All RPCs failed''))"
    by (simp add: fetchWithRetry_def)
qed

lemma all_less_3: "(\<forall>j<(3::nat). P j) \<longleftrightarrow> P 0 \<and> P 1 \<and> P 2"
  by (auto simp: less_Suc_eq eval_nat_numeral)

text \<open>
  The wrapper where the first three mainnet endpoints are unreachable and the fourth
  answers, and on a list of two endpoints that both fail.
\<close>

lemma fetchWithRetry_in_listed_order_example:
  "fetchWithRetry scenario_net mainnet_urls (\<lambda>p. call scenario_net p (JObj [])) =
     (map RpcAttempt mainnet_urls, Inr ''0x2a'') \<and>
   fetchWithRetry dead_net [''u1'', ''u2''] (\<lambda>p. call dead_net p (JObj [])) =
     ([RpcAttempt ''u1'', RpcAttempt ''u2''], Inl (Error ''unreachable: u2''))"
proof -
  have a: "(3::nat) < length mainnet_urls \<and>
        (\<forall>j<3. isl (attempt scenario_net (\<lambda>p. call scenario_net p (JObj [])) (mainnet_urls ! j))) \<and>
        attempt scenario_net (\<lambda>p. call scenario_net p (JObj [])) (mainnet_urls ! 3) = Inr ''0x2a''"
    by (simp add: all_less_3 mainnet_urls_def attempt_def scenario_net_def)
  have b: "[''u1'', ''u2''] \<noteq> [] \<and>
        (\<forall>u \<in> set [''u1'', ''u2'']. isl (attempt dead_net (\<lambda>p. call dead_net p (JObj [])) u))"
    by (simp add: attempt_def dead_net_def)
  from a fetchWithRetry_in_listed_order
         [of mainnet_urls scenario_net "\<lambda>p. call scenario_net p (JObj [])"]
  have "fetchWithRetry scenario_net mainnet_urls (\<lambda>p. call scenario_net p (JObj [])) =
     (map RpcAttempt (take (Suc 3) mainnet_urls), Inr ''0x2a'')" by blast
  moreover from b fetchWithRetry_in_listed_order
         [of "[''u1'', ''u2'']" dead_net "\<lambda>p. call dead_net p (JObj [])"]
  have "fetchWithRetry dead_net [''u1'', ''u2''] (\<lambda>p. call dead_net p (JObj [])) =
     (map RpcAttempt [''u1'', ''u2''],
      attempt dead_net (\<lambda>p. call dead_net p (JObj [])) (last [''u1'', ''u2'']))" by blast
  ultimately show ?thesis
    by (simp add: mainnet_urls_def attempt_def dead_net_def)
qed

text \<open>
  The same for the wrapper as the operations call it, with the list the table lookup
  gave them.
\<close>

lemma member_first_success:
  assumes "succeeds_first_at net cb urls i v"
  shows "fetchWithRetry_member net (Own urls) cb = (map RpcAttempt (take (Suc i) urls), Inr v)"
proof -
  from assms have i: "i < length urls" and v: "attempt net cb (urls ! i) = Inr v"
    and b: "list_all (\<lambda>u. isl (attempt net cb u)) (take i urls)"
    by (simp_all add: succeeds_first_at_def)
  have "\<forall>j<i. isl (attempt net cb (urls ! j))"
  proof (intro allI impI)
    fix j assume j: "j < i"
    with i have "take i urls ! j \<in> set (take i urls)" by (intro nth_mem) simp
    with b have "isl (attempt net cb (take i urls ! j))" by (simp add: list_all_iff)
    with j show "isl (attempt net cb (urls ! j))" by simp
  qed
  from loop_first_success [OF i this v]
  show ?thesis by (simp add: fetchWithRetry_member_def fetchWithRetry_def)
qed

lemma member_all_fail:
  assumes "all_fail net cb urls" and "urls \<noteq> []"
  shows "\<exists>e. attempt net cb (last urls) = Inl e \<and>
             fetchWithRetry_member net (Own urls) cb = (map RpcAttempt urls, Inl e)"
proof -
  from assms(1) have a: "\<forall>u \<in> set urls. isl (attempt net cb u)"
    by (simp add: all_fail_def list_all_iff)
  with assms(2) have "isl (attempt net cb (last urls))" by simp
  then obtain e where e: "attempt net cb (last urls) = Inl e"
    by (cases "attempt net cb (last urls)") auto
  from loop_all_fail [OF a, of None] assms(2) e
  have "fetchWithRetry_member net (Own urls) cb = (map RpcAttempt urls, Inl e)"
    by (simp add: fetchWithRetry_member_def fetchWithRetry_def)
  with e show ?thesis by blast
qed

lemma member_fails_only_if_all_fail:
  assumes "isl (snd (fetchWithRetry_member net (Own urls) cb))"
  shows "all_fail net cb urls"
  using assms loop_fails_only_if_all_fail [of net cb None urls]
  by (simp add: fetchWithRetry_member_def fetchWithRetry_def all_fail_def list_all_iff)

lemma configured_list_not_empty:
  "table_get NETWORKS k = Own urls \<Longrightarrow> urls \<noteq> []"
  by (auto simp: table_get_def NETWORKS_def split: if_splits)

lemma own_is_not_undefined: "m = Own urls \<Longrightarrow> m \<noteq> Undefined"
  by simp

section \<open>Unlocking the vault\<close>

text \<open>
  Claim C2. \<^verbatim>\<open>unlockVault\<close> returns true exactly when a store is persisted, it
  parses, and its \<^verbatim>\<open>masterHash\<close> equals the hash of the supplied password. Then the
  working wallets are the persisted ones and the working settings are the persisted
  settings spread over the defaults. When it returns false (no store, a store that does
  not parse, another hash) the state is left as it was.
\<close>

theorem unlockVault_correct:
  "(snd (snd (unlockVault pf password st)) \<longleftrightarrow>
      (\<exists>stored parsed. localStorage st = Some stored \<and> stored \<noteq> [] \<and>
          parse_store pf stored = Some parsed \<and>
          store_masterHash parsed = hashPassword pf password)) \<and>
   (\<forall>stored parsed. localStorage st = Some stored \<and> stored \<noteq> [] \<and>
        parse_store pf stored = Some parsed \<and>
        store_masterHash parsed = hashPassword pf password \<longrightarrow>
      fst (snd (unlockVault pf password st)) =
        st\<lparr>wallets := store_wallets parsed,
           settings := spread_settings DEFAULT_SETTINGS (store_settings parsed),
           masterPassword := password, isLocked := False\<rparr>) \<and>
   (\<not> snd (snd (unlockVault pf password st)) \<longrightarrow> fst (snd (unlockVault pf password st)) = st)"
  by (auto simp: unlockVault_def Let_def split: option.splits)

text \<open>
  A store whose settings hold only \<^verbatim>\<open>autoLockMinutes\<close>: the right password unlocks it
  and the two other settings come from the defaults; a wrong password, or no store, does
  not unlock.
\<close>

theorem unlockVault_witness:
  "snd (snd (unlockVault toy_platform ''secret1'' (initial_vault (Some ''tampered'')))) \<and>
   wallets (fst (snd (unlockVault toy_platform ''secret1'' (initial_vault (Some ''tampered''))))) =
     [wallet_A, wallet_B] \<and>
   settings (fst (snd (unlockVault toy_platform ''secret1'' (initial_vault (Some ''tampered''))))) =
     DEFAULT_SETTINGS\<lparr>autoLockMinutes := 5\<rparr> \<and>
   \<not> snd (snd (unlockVault toy_platform ''wrong'' (initial_vault (Some ''tampered'')))) \<and>
   \<not> snd (snd (unlockVault toy_platform ''secret1'' (initial_vault None)))"
proof -
  have h: "localStorage (initial_vault (Some ''tampered'')) = Some ''tampered'' \<and> ''tampered'' \<noteq> [] \<and>
        parse_store toy_platform ''tampered'' = Some tampered_store \<and>
        store_masterHash tampered_store = hashPassword toy_platform ''secret1''"
    by (simp add: initial_vault_def toy_platform_def tampered_store_def hashPassword_def)
  have n1: "\<not> (\<exists>stored parsed. localStorage (initial_vault (Some ''tampered'')) = Some stored \<and>
        stored \<noteq> [] \<and> parse_store toy_platform stored = Some parsed \<and>
        store_masterHash parsed = hashPassword toy_platform ''wrong'')"
    by (simp add: initial_vault_def toy_platform_def tampered_store_def hashPassword_def
        toy_digest_def)
  have n2: "\<not> (\<exists>stored parsed. localStorage (initial_vault None) = Some stored \<and>
        stored \<noteq> [] \<and> parse_store toy_platform stored = Some parsed \<and>
        store_masterHash parsed = hashPassword toy_platform ''secret1'')"
    by (simp add: initial_vault_def)
  from h unlockVault_correct [of toy_platform "''secret1''" "initial_vault (Some ''tampered'')"]
  have ok: "snd (snd (unlockVault toy_platform ''secret1'' (initial_vault (Some ''tampered''))))"
    and st: "fst (snd (unlockVault toy_platform ''secret1'' (initial_vault (Some ''tampered'')))) =
        (initial_vault (Some ''tampered''))\<lparr>wallets := store_wallets tampered_store,
           settings := spread_settings DEFAULT_SETTINGS (store_settings tampered_store),
           masterPassword := ''secret1'', isLocked := False\<rparr>"
    by blast+
  from n1 unlockVault_correct [of toy_platform "''wrong''" "initial_vault (Some ''tampered'')"]
  have w: "\<not> snd (snd (unlockVault toy_platform ''wrong'' (initial_vault (Some ''tampered''))))"
    by blast
  from n2 unlockVault_correct [of toy_platform "''secret1''" "initial_vault None"]
  have a: "\<not> snd (snd (unlockVault toy_platform ''secret1'' (initial_vault None)))"
    by blast
  show ?thesis
    unfolding st using ok w a
    by (simp add: tampered_store_def spread_settings_def no_settings_def DEFAULT_SETTINGS_def)
qed

text \<open>
  Claim C4, as amended. For a persisted store whose checksum is present (not the empty
  string) and differs from the recomputed integrity hash, and whose \<^verbatim>\<open>masterHash\<close>
  matches the password, \<^verbatim>\<open>unlockVault\<close> emits the tamper warning, returns true and
  loads the wallets and the settings.
\<close>

theorem unlockVault_tamper_warning:
  assumes "localStorage st = Some stored" and "stored \<noteq> []"
    and "parse_store pf stored = Some parsed"
    and "store_masterHash parsed = hashPassword pf password"
    and "store_checksum parsed \<noteq> []"
    and "store_checksum parsed \<noteq>
           generateIntegrityHash pf (store_wallets parsed, store_settings parsed)"
  shows "unlockVault pf password st =
           ([ConsoleWarn ''Vault Integrity Warning: Data might have been tampered with externally.''],
            st\<lparr>wallets := store_wallets parsed,
               settings := spread_settings DEFAULT_SETTINGS (store_settings parsed),
               masterPassword := password, isLocked := False\<rparr>,
            True)"
  using assms by (simp add: unlockVault_def Let_def)

text \<open>
  The stored checksum covers one wallet while the store holds two.
\<close>

theorem unlockVault_tamper_warning_witness:
  "unlockVault toy_platform ''secret1'' (initial_vault (Some ''tampered'')) =
     ([ConsoleWarn ''Vault Integrity Warning: Data might have been tampered with externally.''],
      (initial_vault (Some ''tampered''))\<lparr>wallets := [wallet_A, wallet_B],
         settings := DEFAULT_SETTINGS\<lparr>autoLockMinutes := 5\<rparr>,
         masterPassword := ''secret1'', isLocked := False\<rparr>,
      True)"
proof -
  have "unlockVault toy_platform ''secret1'' (initial_vault (Some ''tampered'')) =
     ([ConsoleWarn ''Vault Integrity Warning: Data might have been tampered with externally.''],
      (initial_vault (Some ''tampered''))\<lparr>wallets := store_wallets tampered_store,
         settings := spread_settings DEFAULT_SETTINGS (store_settings tampered_store),
         masterPassword := ''secret1'', isLocked := False\<rparr>,
      True)"
    by (rule unlockVault_tamper_warning [where stored = "''tampered''"])
       (simp_all add: initial_vault_def toy_platform_def tampered_store_def hashPassword_def
          generateIntegrityHash_def toy_digest_def toy_data_def wallet_A_def wallet_B_def)
  then show ?thesis
    by (simp add: tampered_store_def spread_settings_def no_settings_def DEFAULT_SETTINGS_def)
qed

text \<open>
  Claim C4 as stated fails where the stored checksum is empty: it differs from the
  recomputed hash, the password matches, the vault unlocks, and no warning is emitted,
  because the code compares the checksums only under the guard \<^verbatim>\<open>parsed.checksum &&\<close>.
\<close>

theorem unlockVault_blank_checksum_no_warning:
  "localStorage (initial_vault (Some ''blank'')) = Some ''blank'' \<and>
   parse_store toy_platform ''blank'' = Some blank_checksum_store \<and>
   store_masterHash blank_checksum_store = hashPassword toy_platform ''secret1'' \<and>
   store_checksum blank_checksum_store \<noteq>
     generateIntegrityHash toy_platform
       (store_wallets blank_checksum_store, store_settings blank_checksum_store) \<and>
   snd (snd (unlockVault toy_platform ''secret1'' (initial_vault (Some ''blank'')))) \<and>
   fst (unlockVault toy_platform ''secret1'' (initial_vault (Some ''blank''))) = []"
  by (simp add: unlockVault_def Let_def initial_vault_def toy_platform_def
      blank_checksum_store_def hashPassword_def generateIntegrityHash_def toy_digest_def)

section \<open>Persisting operations\<close>

lemma persist_storage:
  "localStorage (persist pf ws s h st) =
     Some (stringify_store pf
            \<lparr>store_wallets = ws, store_masterHash = h, store_settings = all_present s,
             store_checksum = generateIntegrityHash pf (ws, all_present s)\<rparr>)"
  by (simp add: persist_def Let_def)

lemma persist_keeps_working_state:
  "wallets (persist pf ws s h st) = wallets st \<and> settings (persist pf ws s h st) = settings st \<and>
   masterPassword (persist pf ws s h st) = masterPassword st \<and>
   isLocked (persist pf ws s h st) = isLocked st \<and> hasVault (persist pf ws s h st) = hasVault st"
  by (simp add: persist_def Let_def)

lemma persist_invariant: "checksum_invariant pf (persist pf ws s h st)"
  unfolding checksum_invariant_def persist_storage
  by (rule exI [of _ "\<lparr>store_wallets = ws, store_masterHash = h, store_settings = all_present s,
             store_checksum = generateIntegrityHash pf (ws, all_present s)\<rparr>"]) simp

lemma filter_new_wallet_records:
  "filter_new ids (map WalletEntry ws) = Inr (filter (\<lambda>w. wallet_id w \<notin> ids) ws)"
  by (induction ws) simp_all

lemma filter_new_null_entry:
  "NullEntry \<in> set entries \<Longrightarrow>
   filter_new ids entries = Inl (TypeError ''Cannot read properties of null (reading 'id')'')"
proof (induction entries)
  case Nil
  then show ?case by simp
next
  case (Cons a entries)
  show ?case
  proof (cases a)
    case NullEntry
    then show ?thesis by simp
  next
    case (WalletEntry w)
    with Cons show ?thesis by simp
  qed
qed

text \<open>Every array has a \<^verbatim>\<open>null\<close> entry or consists of wallet records.\<close>

lemma entries_null_or_wallet_records:
  "NullEntry \<in> set entries \<or> (\<exists>ws. entries = map WalletEntry ws)"
proof (induction entries)
  case Nil
  then show ?case by simp
next
  case (Cons a entries)
  show ?case
  proof (cases a)
    case NullEntry
    then show ?thesis by simp
  next
    case (WalletEntry w)
    from Cons show ?thesis
    proof
      assume "NullEntry \<in> set entries"
      then show ?thesis by simp
    next
      assume "\<exists>ws. entries = map WalletEntry ws"
      then obtain ws where "entries = map WalletEntry ws" ..
      with WalletEntry have "a # entries = map WalletEntry (w # ws)" by simp
      then show ?thesis by (intro disjI2 exI [of _ "w # ws"])
    qed
  qed
qed

lemma import_failure_keeps_state:
  "snd (importVaultData pf jsonString currentPassword st) = ImportFailure e \<Longrightarrow>
   fst (importVaultData pf jsonString currentPassword st) = st"
  by (auto simp: importVaultData_def Let_def
      split: sum.splits backup.splits backup_wallets.splits)

text \<open>
  Claim C8, as amended. For a backup whose \<^verbatim>\<open>wallets\<close> is an array of wallet
  records, \<^verbatim>\<open>importVaultData\<close> appends to the working wallets exactly the backup's
  wallets whose id no working wallet has (names play no part), keeps the existing wallets
  and the settings, persists the result with the hash of the password it was given, and
  returns the number of wallets added. For a text that \<^verbatim>\<open>JSON.parse\<close> rejects, a
  backup that is \<^verbatim>\<open>null\<close> or has no array under \<^verbatim>\<open>wallets\<close>, and an array
  with a \<^verbatim>\<open>null\<close> entry, it returns a failure and changes neither the working
  state nor the stored text.
\<close>

theorem importVaultData_merges_wallet_records:
  "(\<forall>backup_ws.
      parse_backup pf jsonString = Inr (Backup (WalletArray (map WalletEntry backup_ws))) \<longrightarrow>
      (let toAdd = filter (\<lambda>w. wallet_id w \<notin> wallet_id ` set (wallets st)) backup_ws;
           st' = fst (importVaultData pf jsonString currentPassword st)
       in snd (importVaultData pf jsonString currentPassword st) = ImportSuccess (length toAdd) \<and>
          wallets st' = wallets st @ toAdd \<and>
          settings st' = settings st \<and>
          localStorage st' =
            Some (stringify_store pf
                   \<lparr>store_wallets = wallets st @ toAdd,
                    store_masterHash = hashPassword pf currentPassword,
                    store_settings = all_present (settings st),
                    store_checksum =
                      generateIntegrityHash pf (wallets st @ toAdd, all_present (settings st))\<rparr>))) \<and>
   (isl (parse_backup pf jsonString) \<or>
    parse_backup pf jsonString \<in> {Inr BackupNull, Inr (Backup Falsy), Inr (Backup NotAnArray)} \<or>
    (\<exists>entries. parse_backup pf jsonString = Inr (Backup (WalletArray entries)) \<and>
               NullEntry \<in> set entries) \<longrightarrow>
      importVaultData pf jsonString currentPassword st =
        (st, ImportFailure
               (case parse_backup pf jsonString of
                  Inl e \<Rightarrow> e
                | Inr BackupNull \<Rightarrow> TypeError ''Cannot read properties of null (reading 'wallets')''
                | Inr (Backup (WalletArray entries)) \<Rightarrow>
                    TypeError ''Cannot read properties of null (reading 'id')''
                | Inr (Backup other) \<Rightarrow> Error ''Invalid format'')))"
proof (intro conjI allI impI)
  fix backup_ws
  assume "parse_backup pf jsonString = Inr (Backup (WalletArray (map WalletEntry backup_ws)))"
  then show "let toAdd = filter (\<lambda>w. wallet_id w \<notin> wallet_id ` set (wallets st)) backup_ws;
           st' = fst (importVaultData pf jsonString currentPassword st)
       in snd (importVaultData pf jsonString currentPassword st) = ImportSuccess (length toAdd) \<and>
          wallets st' = wallets st @ toAdd \<and>
          settings st' = settings st \<and>
          localStorage st' =
            Some (stringify_store pf
                   \<lparr>store_wallets = wallets st @ toAdd,
                    store_masterHash = hashPassword pf currentPassword,
                    store_settings = all_present (settings st),
                    store_checksum =
                      generateIntegrityHash pf (wallets st @ toAdd, all_present (settings st))\<rparr>)"
    by (simp add: importVaultData_def Let_def filter_new_wallet_records persist_storage
        persist_keeps_working_state)
next
  assume "isl (parse_backup pf jsonString) \<or>
    parse_backup pf jsonString \<in> {Inr BackupNull, Inr (Backup Falsy), Inr (Backup NotAnArray)} \<or>
    (\<exists>entries. parse_backup pf jsonString = Inr (Backup (WalletArray entries)) \<and>
               NullEntry \<in> set entries)"
  then show "importVaultData pf jsonString currentPassword st =
        (st, ImportFailure
               (case parse_backup pf jsonString of
                  Inl e \<Rightarrow> e
                | Inr BackupNull \<Rightarrow> TypeError ''Cannot read properties of null (reading 'wallets')''
                | Inr (Backup (WalletArray entries)) \<Rightarrow>
                    TypeError ''Cannot read properties of null (reading 'id')''
                | Inr (Backup other) \<Rightarrow> Error ''Invalid format''))"
    by (cases "parse_backup pf jsonString")
       (auto simp: importVaultData_def Let_def filter_new_null_entry)
qed

text \<open>
  Scenario E: a vault that holds wallet A imports a backup of A and B (B has another id
  and the same name): one wallet is added and the vault holds two. A text that is not
  JSON and a backup with no \<^verbatim>\<open>wallets\<close> leave the vault as it was.
\<close>

theorem importVaultData_merge_witness:
  "snd (importVaultData toy_platform ''backup'' ''secret1'' vault_with_A) = ImportSuccess 1 \<and>
   wallets (fst (importVaultData toy_platform ''backup'' ''secret1'' vault_with_A)) =
     [wallet_A, wallet_B] \<and>
   importVaultData toy_platform ''not json'' ''secret1'' vault_with_A =
     (vault_with_A, ImportFailure (SyntaxError ''Unexpected token in JSON: not json'')) \<and>
   importVaultData toy_platform ''{}'' ''secret1'' vault_with_A =
     (vault_with_A, ImportFailure (Error ''Invalid format''))"
proof -
  have w: "wallets vault_with_A = [wallet_A]"
    by (simp add: vault_with_A_def addWallet_def createVault_def Let_def
        persist_keeps_working_state initial_vault_def)
  have p: "parse_backup toy_platform ''backup'' =
             Inr (Backup (WalletArray (map WalletEntry [wallet_A, wallet_B])))"
    by (simp add: toy_platform_def)
  have p1: "parse_backup toy_platform ''not json'' =
              Inl (SyntaxError ''Unexpected token in JSON: not json'')"
    and p2: "parse_backup toy_platform ''{}'' = Inr (Backup Falsy)"
    by (simp_all add: toy_platform_def null_entry_backup_def number_backup_def quoted_def)
  note t = importVaultData_merges_wallet_records [of toy_platform _ vault_with_A "''secret1''"]
  from t [of "''backup''", THEN conjunct1, THEN spec, of "[wallet_A, wallet_B]", THEN mp, OF p]
  have "snd (importVaultData toy_platform ''backup'' ''secret1'' vault_with_A) = ImportSuccess 1 \<and>
   wallets (fst (importVaultData toy_platform ''backup'' ''secret1'' vault_with_A)) =
     [wallet_A, wallet_B]"
    by (simp add: Let_def w wallet_A_def wallet_B_def)
  moreover from p1 t [of "''not json''"]
  have "importVaultData toy_platform ''not json'' ''secret1'' vault_with_A =
     (vault_with_A, ImportFailure (SyntaxError ''Unexpected token in JSON: not json''))"
    by simp
  moreover from p2 t [of "''{}''"]
  have "importVaultData toy_platform ''{}'' ''secret1'' vault_with_A =
     (vault_with_A, ImportFailure (Error ''Invalid format''))"
    by simp
  ultimately show ?thesis by simp
qed

text \<open>
  Claim C8 as stated fails on the backup \<^verbatim>\<open>{"wallets":[null]}\<close>: its
  \<^verbatim>\<open>wallets\<close> is an array, so the validation lets it through, and the filter
  throws on the read of \<^verbatim>\<open>id\<close>. The import fails, nothing is added and nothing
  is written, where the claim has every backup with a wallets array succeed and has only
  a malformed backup fail.
\<close>

theorem importVaultData_null_entry_fails:
  "parse_backup toy_platform null_entry_backup = Inr (Backup (WalletArray [NullEntry])) \<and>
   null_entry_backup = ''{'' @ [CHR 0x22] @ ''wallets'' @ [CHR 0x22] @ '':[null]}'' \<and>
   importVaultData toy_platform null_entry_backup ''secret1'' vault_with_A =
     (vault_with_A,
      ImportFailure (TypeError ''Cannot read properties of null (reading 'id')''))"
  by (simp add: importVaultData_def Let_def toy_platform_def null_entry_backup_def quoted_def)

text \<open>
  The spread lists an array-index key before the keys created earlier, the indices by
  value and not by spelling; "007" is no array index.
\<close>

lemma spread_metadata_key_order:
  "spread_metadata [(''notes'', ''cold''), (''10'', ''x'')] [(''007'', ''y''), (''2'', ''z''), (''notes'', ''hot'')] =
     [(''2'', ''z''), (''10'', ''x''), (''notes'', ''hot''), (''007'', ''y'')]"
  by (simp add: spread_metadata_def own_keys_order_def array_index_def numeric_value_def)

lemma apply_op_invariant:
  "checksum_invariant pf st \<Longrightarrow> checksum_invariant pf (apply_op pf st op)"
  by (cases op)
     (auto simp: createVault_def addWallet_def removeWallet_def updateWalletMetadata_def
        updateSettings_def importVaultData_def Let_def persist_invariant
        split: sum.splits backup.splits backup_wallets.splits)

lemma run_ops_invariant:
  "checksum_invariant pf st \<Longrightarrow> checksum_invariant pf (run_ops pf st ops)"
  unfolding run_ops_def
  by (induction ops arbitrary: st) (simp_all add: apply_op_invariant)

text \<open>
  Claim C10. Each persisting operation leaves in storage the serialisation of a store whose
  checksum is the integrity hash of the wallets and settings written with it; an import
  that fails writes nothing; so the invariant holds after any sequence of the operations
  once it holds.
\<close>

theorem persisting_operations_keep_checksum:
  "checksum_invariant pf (createVault pf password st) \<and>
   checksum_invariant pf (addWallet pf wallet st) \<and>
   checksum_invariant pf (removeWallet pf ident st) \<and>
   checksum_invariant pf (updateWalletMetadata pf ident md st) \<and>
   checksum_invariant pf (updateSettings pf newSettings st) \<and>
   (\<forall>n. snd (importVaultData pf jsonString currentPassword st) = ImportSuccess n \<longrightarrow>
        checksum_invariant pf (fst (importVaultData pf jsonString currentPassword st))) \<and>
   (checksum_invariant pf st \<longrightarrow> checksum_invariant pf (run_ops pf st ops))"
  by (auto simp: createVault_def addWallet_def removeWallet_def updateWalletMetadata_def
        updateSettings_def importVaultData_def Let_def persist_invariant run_ops_invariant
        split: sum.splits backup.splits backup_wallets.splits)

text \<open>
  Create, add A, import A and B, remove A, change no setting, fail an import: the store
  left behind holds B alone, under the checksum of B alone.
\<close>

theorem persisting_operations_witness:
  "checksum_invariant toy_platform
     (run_ops toy_platform (createVault toy_platform ''secret1'' (initial_vault None))
        [AddWallet wallet_A, ImportVaultData ''backup'' ''secret1'', RemoveWallet ''id-1'',
         UpdateSettings no_settings, ImportVaultData ''not json'' ''secret1'']) \<and>
   localStorage
     (run_ops toy_platform (createVault toy_platform ''secret1'' (initial_vault None))
        [AddWallet wallet_A, ImportVaultData ''backup'' ''secret1'', RemoveWallet ''id-1'',
         UpdateSettings no_settings, ImportVaultData ''not json'' ''secret1'']) =
     Some ''store[id-2;]sha256(id-2;)''"
proof -
  note t = persisting_operations_keep_checksum [of toy_platform "''secret1''" "initial_vault None"]
  from t have c: "checksum_invariant toy_platform (createVault toy_platform ''secret1'' (initial_vault None))"
    by blast
  from c persisting_operations_keep_checksum
    [of toy_platform _ "createVault toy_platform ''secret1'' (initial_vault None)"]
  have "checksum_invariant toy_platform
     (run_ops toy_platform (createVault toy_platform ''secret1'' (initial_vault None))
        [AddWallet wallet_A, ImportVaultData ''backup'' ''secret1'', RemoveWallet ''id-1'',
         UpdateSettings no_settings, ImportVaultData ''not json'' ''secret1''])"
    by blast
  moreover have "localStorage
     (run_ops toy_platform (createVault toy_platform ''secret1'' (initial_vault None))
        [AddWallet wallet_A, ImportVaultData ''backup'' ''secret1'', RemoveWallet ''id-1'',
         UpdateSettings no_settings, ImportVaultData ''not json'' ''secret1'']) =
     Some ''store[id-2;]sha256(id-2;)''"
    by (simp add: run_ops_def createVault_def addWallet_def removeWallet_def updateSettings_def
        importVaultData_def Let_def persist_storage persist_keeps_working_state initial_vault_def
        toy_platform_def toy_data_def toy_digest_def generateIntegrityHash_def
        wallet_A_def wallet_B_def null_entry_backup_def number_backup_def quoted_def)
  ultimately show ?thesis by simp
qed

text \<open>With a parser that inverts the serialiser, unlocking what was persisted warns of nothing.\<close>

lemma unlock_after_persist_silent:
  assumes "checksum_invariant pf st"
    and "\<forall>store. parse_store pf (stringify_store pf store) = Some store"
  shows "fst (unlockVault pf password st) = []"
  using assms
  by (auto simp: checksum_invariant_def unlockVault_def Let_def)

section \<open>Balance fetch and unknown network keys\<close>

lemma formatValue_zero: "formatValue 0 decimals = ''0.00''"
  by (simp add: formatValue_def split: sum.splits)

lemma race_in_time: "t < ms \<Longrightarrow> race_timeout ms (Settles t r) = r"
  by (simp add: race_timeout_def)

lemma race_late: "ms \<le> t \<Longrightarrow> race_timeout ms (Settles t r) = Inl (Error ''RPC Timeout'')"
  by (simp add: race_timeout_def)

lemma token_balance_absorbs:
  "isl (balanceOf net provider contract address) \<Longrightarrow>
   token_balance net provider (Some contract) address = 0"
  by (cases "balanceOf net provider contract address") (simp_all add: token_balance_def)

lemma token_balance_passes_on:
  "contract \<noteq> [] \<Longrightarrow> balanceOf net provider contract address = Inr v \<Longrightarrow>
   token_balance net provider (Some contract) address = v"
  by (simp add: token_balance_def)

text \<open>
  The key "zKsync" written with U+212A KELVIN SIGN names the zksync endpoints, as it does
  in JavaScript.
\<close>

lemma kelvin_sign_key:
  "toLowerCase (''z'' @ kelvin_sign @ ''sync'') = ''zksync'' \<and>
   table_get NETWORKS (toLowerCase (''z'' @ kelvin_sign @ ''sync'')) =
     Own [''https://mainnet.era.zksync.io'', ''https://1rpc.io/zksync2-era'']"
  by (simp add: toLowerCase.simps kelvin_sign_def lower_char_def table_get_def NETWORKS_def)

text \<open>
  Claim C7. Within one endpoint's attempt of \<^verbatim>\<open>fetchBalance\<close>: when the
  native-currency query answers in time the attempt succeeds whatever the token lookups
  do, and a token lookup that fails counts as the balance zero (shown as "0.00"); when
  the native-currency query fails the attempt fails with its error; when it has not
  settled within 5000 milliseconds the attempt fails with "RPC Timeout".
\<close>

theorem balance_attempt_asymmetric_fallback:
  "(\<forall>t v. getBalance net provider address = Settles t (Inr v) \<and> t < 5000 \<longrightarrow>
      balance_attempt net tokens address provider =
        Inr \<lparr>eth = formatValue v 18, wei = v,
             usdt = formatValue (token_balance net provider (usdt_address tokens) address) 6,
             usdc = formatValue (token_balance net provider (usdc_address tokens) address) 6\<rparr>) \<and>
   (\<forall>contract. isl (balanceOf net provider contract address) \<longrightarrow>
      token_balance net provider (Some contract) address = 0 \<and>
      formatValue (token_balance net provider (Some contract) address) 6 = ''0.00'') \<and>
   (\<forall>t e. getBalance net provider address = Settles t (Inl e) \<and> t < 5000 \<longrightarrow>
      balance_attempt net tokens address provider = Inl e) \<and>
   (\<forall>t r. getBalance net provider address = Settles t r \<and> 5000 \<le> t \<longrightarrow>
      balance_attempt net tokens address provider = Inl (Error ''RPC Timeout'')) \<and>
   (getBalance net provider address = Never \<longrightarrow>
      balance_attempt net tokens address provider = Inl (Error ''RPC Timeout''))"
  by (auto simp: balance_attempt_def Let_def race_timeout_def token_balance_absorbs
        formatValue_zero)

lemma lower_constructor: "toLowerCase ''constructor'' = ''constructor''"
  by (simp add: toLowerCase.simps kelvin_sign_def lower_char_def)

lemma get_constructor: "table_get NETWORKS ''constructor'' = Inherited"
  by (simp add: table_get_def NETWORKS_def object_prototype_members_def)

text \<open>
  Claim C9 at the network key "constructor". The key is not in the \<^verbatim>\<open>NETWORKS\<close>
  table, yet the table lookup finds the member inherited from \<^verbatim>\<open>Object.prototype\<close>,
  which is truthy: \<^verbatim>\<open>ethCall\<close>, \<^verbatim>\<open>estimateGas\<close>, \<^verbatim>\<open>fetchNonce\<close> and
  \<^verbatim>\<open>broadcastTransaction\<close> pass their guard and fail with "urls is not iterable"
  instead of "Unsupported network key", and \<^verbatim>\<open>fetchBalance\<close> does not fall back to
  the mainnet endpoints: it tries no endpoint and answers "Error".
\<close>

theorem inherited_key_is_not_rejected:
  "map_of NETWORKS (toLowerCase ''constructor'') = None \<and>
   ethCall net tx ''constructor'' =
     ([LoggerLog ''Call failed on constructor: urls is not iterable'' Failure ''RPC''],
      Inl (TypeError ''urls is not iterable'')) \<and>
   estimateGas net tx ''constructor'' =
     ([LoggerLog ''Estimate Gas failed on constructor: urls is not iterable'' Failure ''RPC''],
      Inl (TypeError ''urls is not iterable'')) \<and>
   fetchNonce net address ''constructor'' =
     ([LoggerLog ''Nonce fetch failed on constructor: urls is not iterable'' Failure ''RPC''],
      Inl (TypeError ''urls is not iterable'')) \<and>
   broadcastTransaction net rawTx ''constructor'' =
     ([LoggerLog ''Broadcast failed on constructor: urls is not iterable'' Failure ''RPC''],
      Inl (TypeError ''urls is not iterable'')) \<and>
   fetchBalance net address ''constructor'' =
     ([LoggerLog ''Scanning failed for constructor: urls is not iterable'' Warning ''RPC''],
      BalanceError)"
  by (simp add: ethCall_def estimateGas_def fetchNonce_def broadcastTransaction_def
      fetchBalance_def balance_endpoints_def balance_tokens_def fetchWithRetry_member_def
      lower_constructor get_constructor message_or_def Let_def
      table_get_def NETWORKS_def TOKEN_ADDRESSES_def object_prototype_members_def)

lemma includes_sublist: "str_includes s needle \<longleftrightarrow> sublist needle s"
  by (induction s) (auto simp: sublist_Cons_right)

text \<open>
  An endpoint that answers the balance query after 120 ms while both token contracts
  revert; and an endpoint whose balance query never settles.
\<close>

theorem balance_attempt_witness:
  "wei (projr (balance_attempt scenario_net (balance_tokens ''mainnet'') ''0xabc''
                 ''https://cloudflare-eth.com'')) = 1500000000000000000 \<and>
   usdt (projr (balance_attempt scenario_net (balance_tokens ''mainnet'') ''0xabc''
                 ''https://cloudflare-eth.com'')) = ''0.00'' \<and>
   balance_attempt dead_net (balance_tokens ''mainnet'') ''0xabc'' ''https://cloudflare-eth.com'' =
     Inl (Error ''RPC Timeout'')"
proof -
  let ?p = "''https://cloudflare-eth.com''"
  let ?c = "''0xdac17f958d2ee523a2206206994597c13d831ec7''"
  have tk: "usdt_address (balance_tokens ''mainnet'') = Some ?c"
    by (simp add: balance_tokens_def table_get_def TOKEN_ADDRESSES_def toLowerCase.simps
        kelvin_sign_def lower_char_def)
  have g: "getBalance scenario_net ?p ''0xabc'' = Settles 120 (Inr 1500000000000000000) \<and>
           (120::nat) < 5000"
    by (simp add: scenario_net_def)
  have f: "isl (balanceOf scenario_net ?p ?c ''0xabc'')"
    by (simp add: scenario_net_def)
  have n: "getBalance dead_net ?p ''0xabc'' = Never"
    by (simp add: dead_net_def)
  note t = balance_attempt_asymmetric_fallback
  from g t [of scenario_net ?p "''0xabc''" "balance_tokens ''mainnet''"]
  have a: "balance_attempt scenario_net (balance_tokens ''mainnet'') ''0xabc'' ?p =
        Inr \<lparr>eth = formatValue 1500000000000000000 18, wei = 1500000000000000000,
             usdt = formatValue (token_balance scenario_net ?p
                       (usdt_address (balance_tokens ''mainnet'')) ''0xabc'') 6,
             usdc = formatValue (token_balance scenario_net ?p
                       (usdc_address (balance_tokens ''mainnet'')) ''0xabc'') 6\<rparr>"
    by blast
  from f t [of scenario_net ?p "''0xabc''" "balance_tokens ''mainnet''"]
  have z: "formatValue (token_balance scenario_net ?p (Some ?c) ''0xabc'') 6 = ''0.00''"
    by blast
  from n t [of dead_net ?p "''0xabc''" "balance_tokens ''mainnet''"]
  have d: "balance_attempt dead_net (balance_tokens ''mainnet'') ''0xabc'' ?p =
             Inl (Error ''RPC Timeout'')"
    by blast
  show ?thesis unfolding a d using z by (simp add: tk)
qed

text \<open>
  For every other key that is not in the table the operations behave as intended: the
  four raise "Unsupported network key", and \<^verbatim>\<open>fetchBalance\<close> uses the mainnet
  endpoints and no token.
\<close>

lemma unsupported_key_is_rejected:
  assumes "table_get NETWORKS (toLowerCase networkKey) = Undefined"
  shows "ethCall net tx networkKey =
           ([], Inl (Error (''Unsupported network key: '' @ networkKey)))"
    and "estimateGas net tx networkKey =
           ([], Inl (Error (''Unsupported network key: '' @ networkKey)))"
    and "fetchNonce net address networkKey =
           ([], Inl (Error (''Unsupported network key: '' @ networkKey)))"
    and "broadcastTransaction net rawTx networkKey =
           ([], Inl (Error (''Unsupported network key: '' @ networkKey)))"
  using assms
  by (simp_all add: ethCall_def estimateGas_def fetchNonce_def broadcastTransaction_def)

lemma unknown_key_has_no_tokens:
  assumes "table_get NETWORKS k = Undefined"
  shows "table_get TOKEN_ADDRESSES k = Undefined"
  using assms
  by (simp add: table_get_def NETWORKS_def TOKEN_ADDRESSES_def split: if_splits)

lemma unsupported_key_balance_falls_back:
  assumes "table_get NETWORKS (toLowerCase networkKey) = Undefined"
  shows "balance_endpoints networkKey = Own mainnet_urls"
    and "balance_tokens networkKey = no_tokens"
  using assms unknown_key_has_no_tokens [OF assms]
  by (simp_all add: balance_endpoints_def balance_tokens_def)
     (simp add: table_get_def NETWORKS_def mainnet_urls_def)

section \<open>The five network operations and the retry wrapper\<close>

lemma decimal_digit: "n < 10 \<Longrightarrow> decimal n = [digit_char n]"
  by (simp add: decimal.simps)

lemma decimal_step: "10 \<le> n \<Longrightarrow> decimal n = decimal (n div 10) @ [digit_char (n mod 10)]"
  by (subst decimal.simps) simp

lemma formatValue_one_and_a_half: "formatValue 1500000000000000000 18 = ''1.5''"
  by (simp add: formatValue_def formatUnits_def Let_def fixed_limit_def trim_fraction_def
      decimal_digit decimal_step digit_char_def)

lemma mainnet_list: "table_get NETWORKS (toLowerCase ''mainnet'') = Own mainnet_urls"
  by (simp add: table_get_def NETWORKS_def mainnet_urls_def toLowerCase.simps kelvin_sign_def
      lower_char_def)

lemma mainnet_tokens:
  "balance_tokens ''mainnet'' =
     \<lparr>usdt_address = Some ''0xdac17f958d2ee523a2206206994597c13d831ec7'',
      usdc_address = Some ''0xa0b86991c6218b36c1d19d4a2e9eb0ce3606eb48''\<rparr>"
  by (simp add: balance_tokens_def table_get_def TOKEN_ADDRESSES_def toLowerCase.simps
      kelvin_sign_def lower_char_def)

lemma fetchBalance_fourth_endpoint:
  "fetchBalance scenario_net ''0xabc'' ''mainnet'' =
     (map RpcAttempt mainnet_urls,
      Assets \<lparr>eth = ''1.5'', wei = 1500000000000000000, usdt = ''0.00'', usdc = ''0.00''\<rparr>)"
  by (simp add: fetchBalance_def balance_endpoints_def mainnet_list mainnet_tokens Let_def
      fetchWithRetry_member_def fetchWithRetry_def mainnet_urls_def scenario_net_def
      balance_attempt_def race_timeout_def token_balance_def formatValue_zero
      formatValue_one_and_a_half)

lemma fetchBalance_no_endpoint:
  "fetchBalance dead_net ''0xabc'' ''mainnet'' =
     (map RpcAttempt mainnet_urls @
        [LoggerLog ''Scanning failed for mainnet: unreachable: https://cloudflare-eth.com''
           Warning ''RPC''],
      BalanceError)"
  by (simp add: fetchBalance_def balance_endpoints_def mainnet_list Let_def
      fetchWithRetry_member_def fetchWithRetry_def mainnet_urls_def dead_net_def message_or_def)

text \<open>
  The request of scenario C, as the dispatcher's read-only branch serves it: the answer
  carries the balance the fourth endpoint gave; where no endpoint answers, the request
  fails with "RPC Error fetching balance".
\<close>

lemma balance_request_scenario_C:
  "rpc_methods scenario_net balance_request =
     ([AddLog ''Executing Read-Only/RPC Op on mainnet...''] @ map RpcAttempt mainnet_urls @
      [AddLog ''RPC Operation Successful.''],
      Inr ((success_response ''eth_getBalance'')
             \<lparr>r_balance_wei := Some ''1500000000000000000'', r_balance_eth := Some ''1.5''\<rparr>))"
  by (simp add: rpc_methods_def balance_request_def Let_def fetchBalance_fourth_endpoint
      bigint_toString_def decimal_digit decimal_step digit_char_def)

lemma balance_request_no_endpoint:
  "snd (rpc_methods dead_net balance_request) = Inl (Error ''RPC Error fetching balance'')"
  by (simp add: rpc_methods_def balance_request_def Let_def fetchBalance_no_endpoint)

text \<open>
  Claim C3, as amended. For any callback and any list, the retry wrapper tries the
  endpoints in the listed order and stops at the first whose attempt succeeds, returning
  that result; it fails exactly when every endpoint of the list failed, with the exception
  of the last endpoint (with "All RPCs failed" on the empty list), and it hands that
  exception to the operation that called it. On a network key whose lower case has an
  endpoint list of its own in \<^verbatim>\<open>NETWORKS\<close>, each of the five operations
  (\<^verbatim>\<open>ethCall\<close>, \<^verbatim>\<open>estimateGas\<close>, \<^verbatim>\<open>fetchNonce\<close>,
  \<^verbatim>\<open>broadcastTransaction\<close>, \<^verbatim>\<open>fetchBalance\<close>) goes through the retry
  wrapper with that list: the endpoints
  are tried in the listed order up to the first whose attempt succeeds, and that attempt's
  result is the operation's; the operation fails only when every endpoint of the list
  failed. In that case the first four log and raise the exception of the last endpoint,
  whereas \<^verbatim>\<open>fetchBalance\<close> answers "Error" and at most logs that exception's
  message as a warning: nothing at all when the message contains "rate limit".
\<close>

theorem network_operations_retry_in_listed_order:
  "(\<forall>i v. succeeds_first_at net callback list i v \<longrightarrow>
      fetchWithRetry net list callback = (map RpcAttempt (take (Suc i) list), Inr v)) \<and>
   (isl (snd (fetchWithRetry net list callback)) \<longleftrightarrow> all_fail net callback list) \<and>
   (list \<noteq> [] \<and> all_fail net callback list \<longrightarrow>
      fetchWithRetry net list callback =
        (map RpcAttempt list, attempt net callback (last list))) \<and>
   fetchWithRetry net [] callback = ([], Inl (Error ''All RPCs failed'')) \<and>
   (table_get NETWORKS (toLowerCase networkKey) = Own urls \<longrightarrow>
   (\<forall>i v. succeeds_first_at net (\<lambda>provider. call net provider tx) urls i v \<longrightarrow>
      ethCall net tx networkKey = (map RpcAttempt (take (Suc i) urls), Inr v)) \<and>
   (isl (snd (ethCall net tx networkKey)) \<longrightarrow>
      all_fail net (\<lambda>provider. call net provider tx) urls) \<and>
   (all_fail net (\<lambda>provider. call net provider tx) urls \<longrightarrow>
      (\<exists>e. attempt net (\<lambda>provider. call net provider tx) (last urls) = Inl e \<and>
           ethCall net tx networkKey =
             (map RpcAttempt urls @
                [LoggerLog (''Call failed on '' @ networkKey @ '': '' @
                            message_or e ''eth_call failed'') Failure ''RPC''],
              Inl e))) \<and>
   (\<forall>i v. succeeds_first_at net (\<lambda>provider. estimateGas_rpc net provider tx) urls i v \<longrightarrow>
      estimateGas net tx networkKey = (map RpcAttempt (take (Suc i) urls), Inr v)) \<and>
   (isl (snd (estimateGas net tx networkKey)) \<longrightarrow>
      all_fail net (\<lambda>provider. estimateGas_rpc net provider tx) urls) \<and>
   (all_fail net (\<lambda>provider. estimateGas_rpc net provider tx) urls \<longrightarrow>
      (\<exists>e. attempt net (\<lambda>provider. estimateGas_rpc net provider tx) (last urls) = Inl e \<and>
           estimateGas net tx networkKey =
             (map RpcAttempt urls @
                [LoggerLog (''Estimate Gas failed on '' @ networkKey @ '': '' @
                            message_or e ''estimateGas failed'') Failure ''RPC''],
              Inl e))) \<and>
   (\<forall>i v. succeeds_first_at net (\<lambda>provider. getTransactionCount net provider address) urls i v \<longrightarrow>
      fetchNonce net address networkKey = (map RpcAttempt (take (Suc i) urls), Inr v)) \<and>
   (isl (snd (fetchNonce net address networkKey)) \<longrightarrow>
      all_fail net (\<lambda>provider. getTransactionCount net provider address) urls) \<and>
   (all_fail net (\<lambda>provider. getTransactionCount net provider address) urls \<longrightarrow>
      (\<exists>e. attempt net (\<lambda>provider. getTransactionCount net provider address) (last urls) = Inl e \<and>
           fetchNonce net address networkKey =
             (map RpcAttempt urls @
                [LoggerLog (''Nonce fetch failed on '' @ networkKey @ '': '' @
                            message_or e ''Fetch Nonce failed'') Failure ''RPC''],
              Inl e))) \<and>
   (\<forall>i v. succeeds_first_at net (\<lambda>provider. broadcastTransaction_rpc net provider rawTx) urls i v \<longrightarrow>
      broadcastTransaction net rawTx networkKey = (map RpcAttempt (take (Suc i) urls), Inr v)) \<and>
   (isl (snd (broadcastTransaction net rawTx networkKey)) \<longrightarrow>
      all_fail net (\<lambda>provider. broadcastTransaction_rpc net provider rawTx) urls) \<and>
   (all_fail net (\<lambda>provider. broadcastTransaction_rpc net provider rawTx) urls \<longrightarrow>
      (\<exists>e. attempt net (\<lambda>provider. broadcastTransaction_rpc net provider rawTx) (last urls) = Inl e \<and>
           broadcastTransaction net rawTx networkKey =
             (map RpcAttempt urls @
                [LoggerLog (''Broadcast failed on '' @ networkKey @ '': '' @
                            message_or e ''Broadcast failed'') Failure ''RPC''],
              Inl e))) \<and>
   (\<forall>i v. succeeds_first_at net (balance_attempt net (balance_tokens networkKey) address) urls i v \<longrightarrow>
      fetchBalance net address networkKey = (map RpcAttempt (take (Suc i) urls), Assets v)) \<and>
   (snd (fetchBalance net address networkKey) = BalanceError \<longrightarrow>
      all_fail net (balance_attempt net (balance_tokens networkKey) address) urls) \<and>
   (all_fail net (balance_attempt net (balance_tokens networkKey) address) urls \<longrightarrow>
      (\<exists>e. attempt net (balance_attempt net (balance_tokens networkKey) address) (last urls) = Inl e \<and>
           fetchBalance net address networkKey =
             (map RpcAttempt urls @
                (if str_includes (message_or e ''Unknown Error'') ''rate limit'' then []
                 else [LoggerLog (''Scanning failed for '' @ networkKey @ '': '' @
                                  message_or e ''Unknown Error'') Warning ''RPC'']),
              BalanceError))))"
  (is "?W1 \<and> ?W2 \<and> ?W3 \<and> ?W4 \<and> (?A \<longrightarrow> ?OPS)")
proof -
  have w1: ?W1
    using member_first_success [of net callback list]
    by (simp add: fetchWithRetry_member_def)
  have w3: ?W3
    using member_all_fail [of net callback list]
    by (auto simp: fetchWithRetry_member_def)
  have w4: ?W4
    by (simp add: fetchWithRetry_def)
  have "all_fail net callback list \<Longrightarrow> isl (snd (fetchWithRetry net list callback))"
    using loop_all_fail [of list net callback None]
    by (simp add: fetchWithRetry_def all_fail_def list_all_iff)
  with member_fails_only_if_all_fail [of net list callback] have w2: ?W2
    by (auto simp: fetchWithRetry_member_def)
  have ops: "?A \<longrightarrow> ?OPS"
  proof
    assume assms: ?A
    note ne = configured_list_not_empty [OF assms]
    note u = own_is_not_undefined [OF assms]
    have be: "balance_endpoints networkKey = Own urls"
      by (simp add: balance_endpoints_def assms)
    have ok: "\<And>cb i v. succeeds_first_at net cb urls i v \<Longrightarrow>
        fetchWithRetry_member net (table_get NETWORKS (toLowerCase networkKey)) cb =
          (map RpcAttempt (take (Suc i) urls), Inr v)"
      unfolding assms by (rule member_first_success)
    have bad: "\<And>cb. all_fail net cb urls \<Longrightarrow>
        \<exists>e. attempt net cb (last urls) = Inl e \<and>
            fetchWithRetry_member net (table_get NETWORKS (toLowerCase networkKey)) cb =
              (map RpcAttempt urls, Inl e)"
      unfolding assms by (rule member_all_fail [OF _ ne])
    have only: "\<And>cb. isl (snd (fetchWithRetry_member net
                   (table_get NETWORKS (toLowerCase networkKey)) cb)) \<Longrightarrow> all_fail net cb urls"
      unfolding assms by (rule member_fails_only_if_all_fail)
    let ?call = "\<lambda>provider. call net provider tx"
    let ?gas = "\<lambda>provider. estimateGas_rpc net provider tx"
    let ?nonce = "\<lambda>provider. getTransactionCount net provider address"
    let ?send = "\<lambda>provider. broadcastTransaction_rpc net provider rawTx"
    let ?bal = "balance_attempt net (balance_tokens networkKey) address"
    have c1: "\<forall>i v. succeeds_first_at net ?call urls i v \<longrightarrow>
        ethCall net tx networkKey = (map RpcAttempt (take (Suc i) urls), Inr v)"
      using u by (auto simp: ethCall_def Let_def dest!: ok)
    have c2: "isl (snd (ethCall net tx networkKey)) \<longrightarrow> all_fail net ?call urls"
      using u only [of ?call]
      by (auto simp: ethCall_def Let_def split: prod.splits sum.splits)
    have c3: "all_fail net ?call urls \<longrightarrow>
        (\<exists>e. attempt net ?call (last urls) = Inl e \<and>
             ethCall net tx networkKey =
               (map RpcAttempt urls @
                  [LoggerLog (''Call failed on '' @ networkKey @ '': '' @
                              message_or e ''eth_call failed'') Failure ''RPC''],
                Inl e))"
      using u bad [of ?call] by (auto simp: ethCall_def Let_def)
    have g1: "\<forall>i v. succeeds_first_at net ?gas urls i v \<longrightarrow>
        estimateGas net tx networkKey = (map RpcAttempt (take (Suc i) urls), Inr v)"
      using u by (auto simp: estimateGas_def Let_def dest!: ok)
    have g2: "isl (snd (estimateGas net tx networkKey)) \<longrightarrow> all_fail net ?gas urls"
      using u only [of ?gas]
      by (auto simp: estimateGas_def Let_def split: prod.splits sum.splits)
    have g3: "all_fail net ?gas urls \<longrightarrow>
        (\<exists>e. attempt net ?gas (last urls) = Inl e \<and>
             estimateGas net tx networkKey =
               (map RpcAttempt urls @
                  [LoggerLog (''Estimate Gas failed on '' @ networkKey @ '': '' @
                              message_or e ''estimateGas failed'') Failure ''RPC''],
                Inl e))"
      using u bad [of ?gas] by (auto simp: estimateGas_def Let_def)
    have n1: "\<forall>i v. succeeds_first_at net ?nonce urls i v \<longrightarrow>
        fetchNonce net address networkKey = (map RpcAttempt (take (Suc i) urls), Inr v)"
      using u by (auto simp: fetchNonce_def Let_def dest!: ok)
    have n2: "isl (snd (fetchNonce net address networkKey)) \<longrightarrow> all_fail net ?nonce urls"
      using u only [of ?nonce]
      by (auto simp: fetchNonce_def Let_def split: prod.splits sum.splits)
    have n3: "all_fail net ?nonce urls \<longrightarrow>
        (\<exists>e. attempt net ?nonce (last urls) = Inl e \<and>
             fetchNonce net address networkKey =
               (map RpcAttempt urls @
                  [LoggerLog (''Nonce fetch failed on '' @ networkKey @ '': '' @
                              message_or e ''Fetch Nonce failed'') Failure ''RPC''],
                Inl e))"
      using u bad [of ?nonce] by (auto simp: fetchNonce_def Let_def)
    have s1: "\<forall>i v. succeeds_first_at net ?send urls i v \<longrightarrow>
        broadcastTransaction net rawTx networkKey = (map RpcAttempt (take (Suc i) urls), Inr v)"
      using u by (auto simp: broadcastTransaction_def Let_def dest!: ok)
    have s2: "isl (snd (broadcastTransaction net rawTx networkKey)) \<longrightarrow> all_fail net ?send urls"
      using u only [of ?send]
      by (auto simp: broadcastTransaction_def Let_def split: prod.splits sum.splits)
    have s3: "all_fail net ?send urls \<longrightarrow>
        (\<exists>e. attempt net ?send (last urls) = Inl e \<and>
             broadcastTransaction net rawTx networkKey =
               (map RpcAttempt urls @
                  [LoggerLog (''Broadcast failed on '' @ networkKey @ '': '' @
                              message_or e ''Broadcast failed'') Failure ''RPC''],
                Inl e))"
      using u bad [of ?send] by (auto simp: broadcastTransaction_def Let_def)
    have b1: "\<forall>i v. succeeds_first_at net ?bal urls i v \<longrightarrow>
        fetchBalance net address networkKey = (map RpcAttempt (take (Suc i) urls), Assets v)"
      by (auto simp: fetchBalance_def Let_def be dest!: member_first_success)
    have b2: "snd (fetchBalance net address networkKey) = BalanceError \<longrightarrow> all_fail net ?bal urls"
      using member_fails_only_if_all_fail [of net urls ?bal]
      by (auto simp: fetchBalance_def Let_def be split: prod.splits sum.splits)
    have b3: "all_fail net ?bal urls \<longrightarrow>
        (\<exists>e. attempt net ?bal (last urls) = Inl e \<and>
             fetchBalance net address networkKey =
               (map RpcAttempt urls @
                  (if str_includes (message_or e ''Unknown Error'') ''rate limit'' then []
                   else [LoggerLog (''Scanning failed for '' @ networkKey @ '': '' @
                                    message_or e ''Unknown Error'') Warning ''RPC'']),
                BalanceError))"
    proof
      assume "all_fail net ?bal urls"
      from member_all_fail [OF this ne] obtain e
        where e: "attempt net ?bal (last urls) = Inl e"
          and m: "fetchWithRetry_member net (Own urls) ?bal = (map RpcAttempt urls, Inl e)"
        by blast
      from m have "fetchBalance net address networkKey =
               (map RpcAttempt urls @
                  (if str_includes (message_or e ''Unknown Error'') ''rate limit'' then []
                   else [LoggerLog (''Scanning failed for '' @ networkKey @ '': '' @
                                    message_or e ''Unknown Error'') Warning ''RPC'']),
                BalanceError)"
        by (simp add: fetchBalance_def Let_def be)
      with e show "\<exists>e. attempt net ?bal (last urls) = Inl e \<and>
             fetchBalance net address networkKey =
               (map RpcAttempt urls @
                  (if str_includes (message_or e ''Unknown Error'') ''rate limit'' then []
                   else [LoggerLog (''Scanning failed for '' @ networkKey @ '': '' @
                                    message_or e ''Unknown Error'') Warning ''RPC'']),
                BalanceError)"
        by (intro exI [of _ e] conjI)
    qed
    from c1 c2 c3 g1 g2 g3 n1 n2 n3 s1 s2 s3 b1 b2 b3 show ?OPS
      by (intro conjI)
  qed
  from w1 w2 w3 w4 ops show ?thesis
    by (intro conjI)
qed

text \<open>
  Scenario C through \<^verbatim>\<open>fetchBalance\<close>: the first three mainnet endpoints are
  unreachable and the fourth answers 1.5 ether, both token contracts reverting. The nonce
  comes from the fourth endpoint too. Where no endpoint answers, \<^verbatim>\<open>ethCall\<close>
  raises the exception of the fourth endpoint and \<^verbatim>\<open>fetchBalance\<close> answers
  "Error". The wrapper alone, on a list of two endpoints that both fail, raises the second
  one's exception.
\<close>

theorem network_operations_witness:
  "fetchBalance scenario_net ''0xabc'' ''mainnet'' =
     (map RpcAttempt mainnet_urls,
      Assets \<lparr>eth = ''1.5'', wei = 1500000000000000000,
              usdt = ''0.00'', usdc = ''0.00''\<rparr>) \<and>
   fetchNonce scenario_net ''0xabc'' ''mainnet'' = (map RpcAttempt mainnet_urls, Inr 7) \<and>
   ethCall dead_net (JObj []) ''mainnet'' =
     (map RpcAttempt mainnet_urls @
        [LoggerLog ''Call failed on mainnet: unreachable: https://cloudflare-eth.com'' Failure ''RPC''],
      Inl (Error ''unreachable: https://cloudflare-eth.com'')) \<and>
   fetchBalance dead_net ''0xabc'' ''mainnet'' =
     (map RpcAttempt mainnet_urls @
        [LoggerLog ''Scanning failed for mainnet: unreachable: https://cloudflare-eth.com''
           Warning ''RPC''],
      BalanceError) \<and>
   fetchWithRetry dead_net [''u1'', ''u2''] (\<lambda>provider. call dead_net provider (JObj [])) =
     ([RpcAttempt ''u1'', RpcAttempt ''u2''], Inl (Error ''unreachable: u2''))"
proof -
  let ?v = "\<lparr>eth = ''1.5'', wei = 1500000000000000000,
              usdt = ''0.00'', usdc = ''0.00''\<rparr>"
  let ?bal = "\<lambda>net. balance_attempt net (balance_tokens ''mainnet'') ''0xabc''"
  have a: "succeeds_first_at scenario_net (?bal scenario_net) mainnet_urls 3 ?v"
    by (simp add: succeeds_first_at_def mainnet_urls_def attempt_def scenario_net_def
        balance_attempt_def Let_def race_timeout_def token_balance_def mainnet_tokens
        formatValue_zero formatValue_one_and_a_half)
  have b: "succeeds_first_at scenario_net (\<lambda>provider. getTransactionCount scenario_net provider ''0xabc'')
             mainnet_urls 3 7"
    by (simp add: succeeds_first_at_def mainnet_urls_def attempt_def scenario_net_def)
  have c: "all_fail dead_net (\<lambda>provider. call dead_net provider (JObj [])) mainnet_urls"
    and d: "all_fail dead_net (?bal dead_net) mainnet_urls"
    by (simp_all add: all_fail_def mainnet_urls_def attempt_def dead_net_def)
  have w: "[''u1'', ''u2''] \<noteq> [] \<and>
           all_fail dead_net (\<lambda>provider. call dead_net provider (JObj [])) [''u1'', ''u2'']"
    by (simp add: all_fail_def attempt_def dead_net_def)
  note t = network_operations_retry_in_listed_order
             [where networkKey = "''mainnet''" and urls = mainnet_urls
                and net = scenario_net and address = "''0xabc''",
              THEN conjunct2, THEN conjunct2, THEN conjunct2, THEN conjunct2, THEN mp,
              OF mainnet_list]
  note t' = network_operations_retry_in_listed_order
             [where networkKey = "''mainnet''" and urls = mainnet_urls
                and net = dead_net and address = "''0xabc''" and tx = "JObj []",
              THEN conjunct2, THEN conjunct2, THEN conjunct2, THEN conjunct2, THEN mp,
              OF mainnet_list]
  from a t
  have "fetchBalance scenario_net ''0xabc'' ''mainnet'' =
          (map RpcAttempt (take (Suc 3) mainnet_urls), Assets ?v)"
    by blast
  moreover from b t
  have "fetchNonce scenario_net ''0xabc'' ''mainnet'' =
          (map RpcAttempt (take (Suc 3) mainnet_urls), Inr 7)"
    by blast
  moreover from c t'
  have "\<exists>e. attempt dead_net (\<lambda>provider. call dead_net provider (JObj [])) (last mainnet_urls) = Inl e \<and>
           ethCall dead_net (JObj []) ''mainnet'' =
             (map RpcAttempt mainnet_urls @
                [LoggerLog (''Call failed on '' @ ''mainnet'' @ '': '' @
                            message_or e ''eth_call failed'') Failure ''RPC''],
              Inl e)"
    by blast
  moreover from d t'
  have "\<exists>e. attempt dead_net (?bal dead_net) (last mainnet_urls) = Inl e \<and>
           fetchBalance dead_net ''0xabc'' ''mainnet'' =
             (map RpcAttempt mainnet_urls @
                (if str_includes (message_or e ''Unknown Error'') ''rate limit'' then []
                 else [LoggerLog (''Scanning failed for '' @ ''mainnet'' @ '': '' @
                                  message_or e ''Unknown Error'') Warning ''RPC'']),
              BalanceError)"
    by blast
  moreover from w network_operations_retry_in_listed_order
    [where net = dead_net and list = "[''u1'', ''u2'']"
       and callback = "\<lambda>provider. call dead_net provider (JObj [])"]
  have "fetchWithRetry dead_net [''u1'', ''u2''] (\<lambda>provider. call dead_net provider (JObj [])) =
          (map RpcAttempt [''u1'', ''u2''],
           attempt dead_net (\<lambda>provider. call dead_net provider (JObj [])) (last [''u1'', ''u2'']))"
    by blast
  ultimately show ?thesis
    by (auto simp: mainnet_urls_def attempt_def dead_net_def message_or_def)
qed

text \<open>
  Claim C3 as stated fails for the balance operation: when every endpoint has failed,
  \<^verbatim>\<open>fetchBalance\<close> does not surface the error of the last endpoint. Its
  \<^verbatim>\<open>catch\<close> answers the bare string "Error" and the exception goes no further
  than a warning in the log; with a message that contains "rate limit" nothing is logged,
  so that two networks whose last endpoints fail with different errors leave exactly the
  same answer and the same events. The dispatcher turns the answer "Error" into an error
  of its own, "RPC Error fetching balance".
\<close>

theorem fetchBalance_hides_last_error:
  "attempt (throttled_net ''1s'')
     (balance_attempt (throttled_net ''1s'') (balance_tokens ''mainnet'') ''0xabc'')
     (last mainnet_urls) = Inl (Error ''rate limit exceeded, retry in 1s'') \<and>
   attempt (throttled_net ''9s'')
     (balance_attempt (throttled_net ''9s'') (balance_tokens ''mainnet'') ''0xabc'')
     (last mainnet_urls) = Inl (Error ''rate limit exceeded, retry in 9s'') \<and>
   fetchBalance (throttled_net ''1s'') ''0xabc'' ''mainnet'' =
     (map RpcAttempt mainnet_urls, BalanceError) \<and>
   fetchBalance (throttled_net ''9s'') ''0xabc'' ''mainnet'' =
     (map RpcAttempt mainnet_urls, BalanceError) \<and>
   fetchBalance dead_net ''0xabc'' ''mainnet'' =
     (map RpcAttempt mainnet_urls @
        [LoggerLog ''Scanning failed for mainnet: unreachable: https://cloudflare-eth.com''
           Warning ''RPC''],
      BalanceError) \<and>
   snd (rpc_methods dead_net balance_request) = Inl (Error ''RPC Error fetching balance'')"
  unfolding balance_request_no_endpoint
  by (simp add: fetchBalance_def balance_endpoints_def mainnet_list Let_def
      fetchWithRetry_member_def fetchWithRetry_def mainnet_urls_def attempt_def
      throttled_net_def dead_net_def message_or_def)

section \<open>The dispatcher and typed-data signing\<close>

lemma resolve_wallet_none:
  "\<forall>w \<in> set ws. Some (wallet_name w) \<noteq> walletLabel request \<Longrightarrow> resolve_wallet ws request = None"
  by (auto simp: resolve_wallet_def find_None_iff split: option.splits)

lemma signing_type_not_vault:
  "t \<in> {''personal_sign'', ''eth_signTransaction'', ''eth_signTypedData''} \<Longrightarrow>
   \<not> prefix ''vault_'' t \<and>
   t \<notin> set [''eth_getBalance'', ''eth_call'', ''eth_estimateGas'', ''eth_sendRawTransaction'']"
  by auto

text \<open>
  Claim C5, as amended. For a signing request (\<^verbatim>\<open>personal_sign\<close>,
  \<^verbatim>\<open>eth_signTransaction\<close>, \<^verbatim>\<open>eth_signTypedData\<close>) whose label is absent or
  names no wallet of the vault, the dispatcher answers with an error response (code
  EXECUTION_ERROR) whose message is "Operation <type> requires a valid 'walletLabel'
  present in the vault.": it names the operation and the \<^verbatim>\<open>walletLabel\<close> field, not the
  label. No decryption is attempted, no wallet is added and no signature is kept.
\<close>

theorem unresolved_label_no_decryption:
  assumes "parse_request env requestJson = Some request"
    and "req_type request \<in> {''personal_sign'', ''eth_signTransaction'', ''eth_signTypedData''}"
    and "\<forall>w \<in> set ws. Some (wallet_name w) \<noteq> walletLabel request"
  shows "response (handleProcessRequest net lib wc env ws password requestJson) =
           error_response (Error (''Operation '' @ req_type request @
                                  '' requires a valid 'walletLabel' present in the vault.'')) \<and>
         (\<forall>blob. DecryptCall blob \<notin>
                   set (events (handleProcessRequest net lib wc env ws password requestJson))) \<and>
         added (handleProcessRequest net lib wc env ws password requestJson) = None \<and>
         lastSignature (handleProcessRequest net lib wc env ws password requestJson) = None"
proof -
  from signing_type_not_vault [OF assms(2)]
  have a: "\<not> prefix ''vault_'' (req_type request)"
    and b: "req_type request \<notin> set [''eth_getBalance'', ''eth_call'', ''eth_estimateGas'',
                                      ''eth_sendRawTransaction'']"
    by blast+
  have c: "signature_methods lib wc ws password request =
             ([], Inl (Error (''Operation '' @ req_type request @
                              '' requires a valid 'walletLabel' present in the vault.'')))"
    by (simp add: signature_methods_def resolve_wallet_none [OF assms(3)])
  show ?thesis
    using a b by (simp add: handleProcessRequest_def Let_def assms(1) c failed_def)
qed


text \<open>
  A request to sign a message with the wallet "B" in a vault that holds only "A".
\<close>

theorem unresolved_label_witness:
  "response (handleProcessRequest scenario_net toy_ethers toy_webcrypto toy_env [wallet_A] ''pw''
               ''sign message with B'') =
     error_response
       (Error ''Operation personal_sign requires a valid 'walletLabel' present in the vault.'') \<and>
   events (handleProcessRequest scenario_net toy_ethers toy_webcrypto toy_env [wallet_A] ''pw''
             ''sign message with B'') =
     [AddLog ''Received API request...'', AddLog ''Payload parsed. Type: personal_sign'',
      AddLog ''Error: Operation personal_sign requires a valid 'walletLabel' present in the vault.'',
      LoggerLog ''Op failed: Operation personal_sign requires a valid 'walletLabel' present in the vault.''
        Failure ''Signer'']"
proof -
  let ?req = "sign_tx_for_A\<lparr>req_type := ''personal_sign'', walletLabel := Some ''B'',
                payload := Some (JStr ''hello'')\<rparr>"
  have p: "parse_request toy_env ''sign message with B'' = Some ?req"
    by (simp add: toy_env_def)
  have t: "req_type ?req \<in> {''personal_sign'', ''eth_signTransaction'', ''eth_signTypedData''}"
    by simp
  have n: "\<forall>w \<in> set [wallet_A]. Some (wallet_name w) \<noteq> walletLabel ?req"
    by (simp add: wallet_A_def)
  from unresolved_label_no_decryption [OF p t n, of scenario_net toy_ethers toy_webcrypto "''pw''"]
  have "response (handleProcessRequest scenario_net toy_ethers toy_webcrypto toy_env [wallet_A] ''pw''
               ''sign message with B'') =
     error_response
       (Error ''Operation personal_sign requires a valid 'walletLabel' present in the vault.'')"
    by simp
  moreover have "events (handleProcessRequest scenario_net toy_ethers toy_webcrypto toy_env [wallet_A]
             ''pw'' ''sign message with B'') =
     [AddLog ''Received API request...'', AddLog ''Payload parsed. Type: personal_sign'',
      AddLog ''Error: Operation personal_sign requires a valid 'walletLabel' present in the vault.'',
      LoggerLog ''Op failed: Operation personal_sign requires a valid 'walletLabel' present in the vault.''
        Failure ''Signer'']"
    by (simp add: handleProcessRequest_def Let_def p signature_methods_def resolve_wallet_def
        wallet_A_def failed_def)
  ultimately show ?thesis by simp
qed

text \<open>
  Claim C5 as stated fails in scenario D: the request asks for the wallet "A", the vault is
  empty, and the error message does not contain the label.
\<close>

theorem unresolved_label_not_in_message:
  "parse_request toy_env ''sign transaction with A'' = Some sign_tx_for_A \<and>
   req_type sign_tx_for_A = ''eth_signTransaction'' \<and>
   walletLabel sign_tx_for_A = Some ''A'' \<and>
   r_error (response (handleProcessRequest scenario_net toy_ethers toy_webcrypto toy_env [] ''pw''
                        ''sign transaction with A'')) =
     Some ''Operation eth_signTransaction requires a valid 'walletLabel' present in the vault.'' \<and>
   \<not> str_includes
        ''Operation eth_signTransaction requires a valid 'walletLabel' present in the vault.''
        ''A''"
  by (simp add: handleProcessRequest_def Let_def toy_env_def sign_tx_for_A_def
      signature_methods_def resolve_wallet_def failed_def error_response_def)

text \<open>
  By contrast, when the label resolves, the key is decrypted and the request is signed.
\<close>

lemma resolved_label_decrypts_and_signs:
  "DecryptCall ''blob-A'' \<in>
     set (events (handleProcessRequest scenario_net toy_ethers toy_webcrypto toy_env [wallet_A] ''pw''
                    ''sign transaction with A'')) \<and>
   r_signedTx (response (handleProcessRequest scenario_net toy_ethers toy_webcrypto toy_env [wallet_A]
                            ''pw'' ''sign transaction with A'')) = Some ''0xsigned-transaction'' \<and>
   lastSignature (handleProcessRequest scenario_net toy_ethers toy_webcrypto toy_env [wallet_A]
                            ''pw'' ''sign transaction with A'') = Some (''0xsigned-transaction'', JNum 1)"
  by (simp add: handleProcessRequest_def Let_def toy_env_def sign_tx_for_A_def
      signature_methods_def resolve_wallet_def wallet_A_def decryptData_def getKey_def
      toy_webcrypto_def signTransaction_def toy_ethers_def get_member_def success_response_def)

lemma typed_data_error_names_fields:
  "str_includes (message typed_data_error) ''domain'' \<and>
   str_includes (message typed_data_error) ''types'' \<and>
   str_includes (message typed_data_error) ''value''"
  by (simp add: typed_data_error_def)

text \<open>
  Claim C6, as amended. With a valid key: for a payload object in which one of
  \<^verbatim>\<open>domain\<close>, \<^verbatim>\<open>types\<close>, \<^verbatim>\<open>value\<close> is absent or falsy,
  \<^verbatim>\<open>signTypedData\<close> fails with the one validation error, whose message lists all
  three field names whichever is missing; for a payload in which all three are present and
  truthy it does not raise it, and signs with exactly these three values.
\<close>

theorem signTypedData_validation:
  assumes "address_of_key lib privateKey \<noteq> None"
  shows "((\<exists>kvs. p = JObj kvs) \<and>
          (\<not> truthy_opt (get_optional (Some p) ''domain'') \<or>
           \<not> truthy_opt (get_optional (Some p) ''types'') \<or>
           \<not> truthy_opt (get_optional (Some p) ''value'')) \<longrightarrow>
          signTypedData lib privateKey (Some p) =
            Inl (Error ''TypedData payload must contain domain, types, and value'')) \<and>
         (\<forall>d t v. get_optional (Some p) ''domain'' = Some d \<and> truthy d \<and>
                  get_optional (Some p) ''types'' = Some t \<and> truthy t \<and>
                  get_optional (Some p) ''value'' = Some v \<and> truthy v \<longrightarrow>
            signTypedData lib privateKey (Some p) = wallet_signTypedData lib privateKey d t v) \<and>
         str_includes ''TypedData payload must contain domain, types, and value'' ''domain'' \<and>
         str_includes ''TypedData payload must contain domain, types, and value'' ''types'' \<and>
         str_includes ''TypedData payload must contain domain, types, and value'' ''value''"
proof (intro conjI impI allI)
  assume a: "(\<exists>kvs. p = JObj kvs) \<and>
          (\<not> truthy_opt (get_optional (Some p) ''domain'') \<or>
           \<not> truthy_opt (get_optional (Some p) ''types'') \<or>
           \<not> truthy_opt (get_optional (Some p) ''value''))"
  then obtain kvs where p: "p = JObj kvs" by blast
  from a assms show "signTypedData lib privateKey (Some p) =
            Inl (Error ''TypedData payload must contain domain, types, and value'')"
    by (auto simp: signTypedData_def get_member_def get_optional_def p typed_data_error_def)
next
  fix d t v
  assume a: "get_optional (Some p) ''domain'' = Some d \<and> truthy d \<and>
             get_optional (Some p) ''types'' = Some t \<and> truthy t \<and>
             get_optional (Some p) ''value'' = Some v \<and> truthy v"
  then have "get_prop p ''domain'' = Inr (Some d)"
    by (auto simp: get_optional_def split: sum.splits)
  with a assms show "signTypedData lib privateKey (Some p) = wallet_signTypedData lib privateKey d t v"
    by (auto simp: signTypedData_def get_member_def)
qed simp_all

text \<open>
  A payload without \<^verbatim>\<open>types\<close>, and a complete one.
\<close>

theorem signTypedData_witness:
  "signTypedData toy_ethers ''0xkey'' (Some (JObj [(''domain'', JObj []), (''value'', JObj [])])) =
     Inl (Error ''TypedData payload must contain domain, types, and value'') \<and>
   signTypedData toy_ethers ''0xkey'' (Some typed_payload_complete) = Inr ''0xsigned-typed-data''"
proof -
  have k: "address_of_key toy_ethers ''0xkey'' \<noteq> None"
    by (simp add: toy_ethers_def)
  let ?p = "JObj [(''domain'', JObj []), (''value'', JObj [])]"
  have m: "(\<exists>kvs. ?p = JObj kvs) \<and>
          (\<not> truthy_opt (get_optional (Some ?p) ''domain'') \<or>
           \<not> truthy_opt (get_optional (Some ?p) ''types'') \<or>
           \<not> truthy_opt (get_optional (Some ?p) ''value''))"
    by (simp add: get_optional_def)
  have c: "get_optional (Some typed_payload_complete) ''domain'' =
             Some (JObj [(''name'', JStr ''Ether Mail'')]) \<and>
           truthy (JObj [(''name'', JStr ''Ether Mail'')]) \<and>
           get_optional (Some typed_payload_complete) ''types'' = Some (JObj [(''Person'', JArr [])]) \<and>
           truthy (JObj [(''Person'', JArr [])]) \<and>
           get_optional (Some typed_payload_complete) ''value'' =
             Some (JObj [(''name'', JStr ''Bob'')]) \<and>
           truthy (JObj [(''name'', JStr ''Bob'')])"
    by (simp add: get_optional_def typed_payload_complete_def)
  from m signTypedData_validation [OF k, of ?p]
  have "signTypedData toy_ethers ''0xkey'' (Some ?p) =
     Inl (Error ''TypedData payload must contain domain, types, and value'')"
    by blast
  moreover from c signTypedData_validation [OF k, of typed_payload_complete]
  have "signTypedData toy_ethers ''0xkey'' (Some typed_payload_complete) =
          wallet_signTypedData toy_ethers ''0xkey'' (JObj [(''name'', JStr ''Ether Mail'')])
            (JObj [(''Person'', JArr [])]) (JObj [(''name'', JStr ''Bob'')])"
    by blast
  ultimately show ?thesis by (simp add: toy_ethers_def)
qed

text \<open>
  Claim C6 as stated fails for a payload that contains all three fields, one of them
  falsy (here \<^verbatim>\<open>value\<close> is the empty string): the validation error is raised.
\<close>

theorem signTypedData_present_but_empty:
  "get_optional (Some typed_payload_empty_value) ''domain'' \<noteq> None \<and>
   get_optional (Some typed_payload_empty_value) ''types'' \<noteq> None \<and>
   get_optional (Some typed_payload_empty_value) ''value'' = Some (JStr []) \<and>
   address_of_key toy_ethers ''0xkey'' = Some ''0xaaa'' \<and>
   signTypedData toy_ethers ''0xkey'' (Some typed_payload_empty_value) =
     Inl (Error ''TypedData payload must contain domain, types, and value'')"
  by (simp add: signTypedData_def get_member_def get_optional_def typed_payload_empty_value_def
      toy_ethers_def typed_data_error_def)

section \<open>The text codec round trip\<close>

lemma unat_byte: "n < 256 \<Longrightarrow> unat (of_nat n :: 8 word) = n"
  by (simp add: unat_of_nat)

lemma unat_unit: "n < 65536 \<Longrightarrow> unat (of_nat n :: 16 word) = n"
  by (simp add: unat_of_nat)

lemma unat_unit_bound: "unat (u :: 16 word) < 65536"
  using unsigned_less [of u, where ?'a = nat] by simp

lemma high_nat: "high_surrogate u \<longleftrightarrow> 0xD800 \<le> unat u \<and> unat u \<le> 0xDBFF"
  by (simp add: high_surrogate_def word_le_nat_alt)

lemma low_nat: "low_surrogate u \<longleftrightarrow> 0xDC00 \<le> unat u \<and> unat u \<le> 0xDFFF"
  by (simp add: low_surrogate_def word_le_nat_alt)

lemma decode_continue:
  "0 < needed \<Longrightarrow>
   utf8_decode_from cp needed lower upper (b # bs) =
     (if unat b < lower \<or> upper < unat b then 0xFFFD # utf8_decode_from 0 0 0x80 0xBF (b # bs)
      else if needed = 1 then (cp * 0x40 + unat b mod 0x40) # utf8_decode_from 0 0 0x80 0xBF bs
      else utf8_decode_from (cp * 0x40 + unat b mod 0x40) (needed - 1) 0x80 0xBF bs)"
  by (cases needed) (simp_all add: Let_def utf8_decode_from.simps)

lemma decode_truncated:
  "0 < needed \<Longrightarrow> utf8_decode_from cp needed lower upper [] = [0xFFFD]"
  by (cases needed) (simp_all add: utf8_decode_from.simps)

lemma decode_start:
  "utf8_decode_from cp 0 lower upper (b # bs) =
     (if unat b \<le> 0x7F then unat b # utf8_decode_from 0 0 0x80 0xBF bs
      else if 0xC2 \<le> unat b \<and> unat b \<le> 0xDF
        then utf8_decode_from (unat b mod 0x20) 1 0x80 0xBF bs
      else if 0xE0 \<le> unat b \<and> unat b \<le> 0xEF then
        utf8_decode_from (unat b mod 0x10) 2
          (if unat b = 0xE0 then 0xA0 else 0x80) (if unat b = 0xED then 0x9F else 0xBF) bs
      else if 0xF0 \<le> unat b \<and> unat b \<le> 0xF4 then
        utf8_decode_from (unat b mod 8) 3
          (if unat b = 0xF0 then 0x90 else 0x80) (if unat b = 0xF4 then 0x8F else 0xBF) bs
      else 0xFFFD # utf8_decode_from 0 0 0x80 0xBF bs)"
  by (simp add: Let_def utf8_decode_from.simps)


lemma decode_one_byte:
  assumes "c < 0x80"
  shows "utf8_decode_from 0 0 0x80 0xBF (utf8_bytes c @ rest) = c # utf8_decode_from 0 0 0x80 0xBF rest"
proof -
  have "unat (of_nat c :: 8 word) = c" using assms by (simp add: unat_byte)
  then show ?thesis using assms by (simp add: utf8_bytes_def decode_start)
qed

lemma mod_drop: "q < m \<Longrightarrow> (k * m + q) mod m = (q::nat)"
  by simp

lemma mod_shift32: "q < 32 \<Longrightarrow> (192 + q) mod 32 = (q::nat)"
  using mod_drop [of q 32 6] by simp

lemma mod_shift16: "q < 16 \<Longrightarrow> (224 + q) mod 16 = (q::nat)"
  using mod_drop [of q 16 14] by simp

lemma mod_shift8: "q < 8 \<Longrightarrow> (240 + q) mod 8 = (q::nat)"
  using mod_drop [of q 8 30] by simp

lemma mod_shift64: "r < 64 \<Longrightarrow> (128 + r) mod 64 = (r::nat)"
  using mod_drop [of r 64 2] by simp

text \<open>One continuation byte, in the middle of a sequence and at its end.\<close>

lemma continue_last:
  assumes "unat b = 128 + r" "r < 64" "lower \<le> 128 + r" "128 + r \<le> upper"
  shows "utf8_decode_from cp 1 lower upper (b # rest) =
           (cp * 64 + r) # utf8_decode_from 0 0 0x80 0xBF rest"
  using assms by (simp add: decode_continue mod_shift64)

lemma continue_more:
  assumes "unat b = 128 + r" "r < 64" "lower \<le> 128 + r" "128 + r \<le> upper" "1 < needed"
  shows "utf8_decode_from cp needed lower upper (b # rest) =
           utf8_decode_from (cp * 64 + r) (needed - 1) 0x80 0xBF rest"
  using assms by (simp add: decode_continue mod_shift64)

lemma decode_two_bytes:
  assumes "0x80 \<le> c" "c < 0x800"
  shows "utf8_decode_from 0 0 0x80 0xBF (utf8_bytes c @ rest) = c # utf8_decode_from 0 0 0x80 0xBF rest"
proof -
  define q where "q = c div 64"
  define r where "r = c mod 64"
  define b1 :: "8 word" where "b1 = of_nat (192 + q)"
  define b2 :: "8 word" where "b2 = of_nat (128 + r)"
  have c: "q * 64 + r = c" by (simp add: q_def r_def)
  have q: "2 \<le> q" "q < 32" using assms by (simp_all add: q_def)
  have r: "r < 64" by (simp add: r_def)
  have u1: "unat b1 = 192 + q"
    unfolding b1_def using q by (intro unat_byte) simp
  have u2: "unat b2 = 128 + r"
    unfolding b2_def using r by (intro unat_byte) simp
  have bytes: "utf8_bytes c = [b1, b2]"
    using assms by (simp add: utf8_bytes_def q_def r_def b1_def b2_def)
  have s1: "utf8_decode_from 0 0 0x80 0xBF ([b1, b2] @ rest) =
            utf8_decode_from q 1 0x80 0xBF (b2 # rest)"
    using q by (simp add: decode_start u1 mod_shift32)
  have s2: "utf8_decode_from q 1 0x80 0xBF (b2 # rest) =
            (q * 64 + r) # utf8_decode_from 0 0 0x80 0xBF rest"
    using r by (intro continue_last u2) simp_all
  show ?thesis unfolding bytes s1 s2 c ..
qed

lemma split3:
  fixes c :: nat
  shows "c div 4096 * 4096 + c div 64 mod 64 * 64 + c mod 64 = c"
proof -
  have "c div 64 div 64 = c div 4096" by (simp add: div_mult2_eq)
  then have "c div 64 = c div 4096 * 64 + c div 64 mod 64"
    using div_mult_mod_eq [of "c div 64" 64] by simp
  then show ?thesis using div_mult_mod_eq [of c 64] by linarith
qed

lemma split4:
  fixes c :: nat
  shows "c div 262144 * 262144 + c div 4096 mod 64 * 4096 + c div 64 mod 64 * 64 + c mod 64 = c"
proof -
  have "c div 4096 div 64 = c div 262144" by (simp add: div_mult2_eq)
  then have "c div 4096 = c div 262144 * 64 + c div 4096 mod 64"
    using div_mult_mod_eq [of "c div 4096" 64] by simp
  then show ?thesis using split3 [of c] by linarith
qed

lemma decode_three_bytes:
  assumes "0x800 \<le> c" "c < 0x10000" "\<not> (0xD800 \<le> c \<and> c \<le> 0xDFFF)"
  shows "utf8_decode_from 0 0 0x80 0xBF (utf8_bytes c @ rest) = c # utf8_decode_from 0 0 0x80 0xBF rest"
proof -
  define q where "q = c div 4096"
  define m where "m = c div 64 mod 64"
  define r where "r = c mod 64"
  define b1 :: "8 word" where "b1 = of_nat (224 + q)"
  define b2 :: "8 word" where "b2 = of_nat (128 + m)"
  define b3 :: "8 word" where "b3 = of_nat (128 + r)"
  have c: "q * 4096 + m * 64 + r = c" unfolding q_def m_def r_def by (rule split3)
  have q: "q < 16" using assms by (simp add: q_def)
  have m: "m < 64" by (simp add: m_def)
  have r: "r < 64" by (simp add: r_def)
  have lo: "q = 0 \<Longrightarrow> 32 \<le> m" using c assms r by arith
  have hi: "q = 13 \<Longrightarrow> m < 32" using c assms r m by arith
  have u1: "unat b1 = 224 + q" unfolding b1_def using q by (intro unat_byte) simp
  have u2: "unat b2 = 128 + m" unfolding b2_def using m by (intro unat_byte) simp
  have u3: "unat b3 = 128 + r" unfolding b3_def using r by (intro unat_byte) simp
  have bytes: "utf8_bytes c = [b1, b2, b3]"
    using assms by (simp add: utf8_bytes_def q_def m_def r_def b1_def b2_def b3_def)
  have s1: "utf8_decode_from 0 0 0x80 0xBF ([b1, b2, b3] @ rest) =
            utf8_decode_from q 2 (if q = 0 then 0xA0 else 0x80) (if q = 13 then 0x9F else 0xBF)
              (b2 # b3 # rest)"
    using q by (simp add: decode_start u1 mod_shift16)
  have s2: "utf8_decode_from q 2 (if q = 0 then 0xA0 else 0x80) (if q = 13 then 0x9F else 0xBF)
              (b2 # b3 # rest) =
            utf8_decode_from (q * 64 + m) (2 - 1) 0x80 0xBF (b3 # rest)"
    using m lo hi by (intro continue_more u2) auto
  have s3: "utf8_decode_from (q * 64 + m) (2 - 1) 0x80 0xBF (b3 # rest) =
            ((q * 64 + m) * 64 + r) # utf8_decode_from 0 0 0x80 0xBF rest"
    using r continue_last [OF u3, of 128 191 "q * 64 + m" rest] by simp
  have v: "(q * 64 + m) * 64 + r = c" using c by simp
  show ?thesis unfolding bytes s1 s2 s3 v ..
qed

lemma decode_four_bytes:
  assumes "0x10000 \<le> c" "c < 0x110000"
  shows "utf8_decode_from 0 0 0x80 0xBF (utf8_bytes c @ rest) = c # utf8_decode_from 0 0 0x80 0xBF rest"
proof -
  define q where "q = c div 262144"
  define m1 where "m1 = c div 4096 mod 64"
  define m2 where "m2 = c div 64 mod 64"
  define r where "r = c mod 64"
  define b1 :: "8 word" where "b1 = of_nat (240 + q)"
  define b2 :: "8 word" where "b2 = of_nat (128 + m1)"
  define b3 :: "8 word" where "b3 = of_nat (128 + m2)"
  define b4 :: "8 word" where "b4 = of_nat (128 + r)"
  have c: "q * 262144 + m1 * 4096 + m2 * 64 + r = c"
    unfolding q_def m1_def m2_def r_def by (rule split4)
  have q: "q \<le> 4" using assms by (simp add: q_def)
  have m1: "m1 < 64" by (simp add: m1_def)
  have m2: "m2 < 64" by (simp add: m2_def)
  have r: "r < 64" by (simp add: r_def)
  have lo: "q = 0 \<Longrightarrow> 16 \<le> m1" using c assms r m2 by arith
  have hi: "q = 4 \<Longrightarrow> m1 < 16" using c assms r m2 m1 by arith
  have u1: "unat b1 = 240 + q" unfolding b1_def using q by (intro unat_byte) simp
  have u2: "unat b2 = 128 + m1" unfolding b2_def using m1 by (intro unat_byte) simp
  have u3: "unat b3 = 128 + m2" unfolding b3_def using m2 by (intro unat_byte) simp
  have u4: "unat b4 = 128 + r" unfolding b4_def using r by (intro unat_byte) simp
  have bytes: "utf8_bytes c = [b1, b2, b3, b4]"
    using assms
    by (simp add: utf8_bytes_def q_def m1_def m2_def r_def b1_def b2_def b3_def b4_def)
  have s1: "utf8_decode_from 0 0 0x80 0xBF ([b1, b2, b3, b4] @ rest) =
            utf8_decode_from q 3 (if q = 0 then 0x90 else 0x80) (if q = 4 then 0x8F else 0xBF)
              (b2 # b3 # b4 # rest)"
    using q by (simp add: decode_start u1 mod_shift8)
  have s2: "utf8_decode_from q 3 (if q = 0 then 0x90 else 0x80) (if q = 4 then 0x8F else 0xBF)
              (b2 # b3 # b4 # rest) =
            utf8_decode_from (q * 64 + m1) (3 - 1) 0x80 0xBF (b3 # b4 # rest)"
    using m1 lo hi by (intro continue_more u2) auto
  have s3: "utf8_decode_from (q * 64 + m1) (3 - 1) 0x80 0xBF (b3 # b4 # rest) =
            utf8_decode_from ((q * 64 + m1) * 64 + m2) (3 - 1 - 1) 0x80 0xBF (b4 # rest)"
    using m2 by (intro continue_more u3) auto
  have s4: "utf8_decode_from ((q * 64 + m1) * 64 + m2) (3 - 1 - 1) 0x80 0xBF (b4 # rest) =
            (((q * 64 + m1) * 64 + m2) * 64 + r) # utf8_decode_from 0 0 0x80 0xBF rest"
    using r continue_last [OF u4, of 128 191 "(q * 64 + m1) * 64 + m2" rest] by simp
  have v: "((q * 64 + m1) * 64 + m2) * 64 + r = c" using c by simp
  show ?thesis unfolding bytes s1 s2 s3 s4 v ..
qed


lemma decode_scalar:
  assumes "scalar c"
  shows "utf8_decode_from 0 0 0x80 0xBF (utf8_bytes c @ rest) = c # utf8_decode_from 0 0 0x80 0xBF rest"
proof -
  consider "c < 0x80" | "0x80 \<le> c" "c < 0x800" | "0x800 \<le> c" "c < 0x10000"
    | "0x10000 \<le> c" "c < 0x110000"
    using assms unfolding scalar_def by linarith
  then show ?thesis
  proof cases
    case 1 then show ?thesis by (rule decode_one_byte)
  next
    case 2 then show ?thesis by (rule decode_two_bytes)
  next
    case 3 with assms show ?thesis by (intro decode_three_bytes) (simp_all add: scalar_def)
  next
    case 4 then show ?thesis by (rule decode_four_bytes)
  qed
qed

lemma decode_scalars:
  "list_all scalar cs \<Longrightarrow> utf8_decode (concat (map utf8_bytes cs)) = cs"
  unfolding utf8_decode_def
  by (induction cs) (simp_all add: decode_scalar utf8_decode_from.simps(1))

lemma pair_value:
  assumes "high_surrogate u" "low_surrogate v"
  shows "scalar (0x10000 + (unat u - 0xD800) * 0x400 + (unat v - 0xDC00))"
proof -
  from assms have "unat u - 0xD800 \<le> 0x3FF" "unat v - 0xDC00 \<le> 0x3FF"
    unfolding high_nat low_nat by arith+
  then have "(unat u - 0xD800) * 0x400 + (unat v - 0xDC00) \<le> 0x3FF * 0x400 + 0x3FF"
    by (intro add_mono mult_right_mono) simp_all
  then show ?thesis by (simp add: scalar_def)
qed

lemma single_value:
  assumes "\<not> high_surrogate u" "\<not> low_surrogate u"
  shows "scalar (unat u)"
  using assms unat_unit_bound [of u] unfolding high_nat low_nat scalar_def by arith

lemma scalar_replacement: "scalar 0xFFFD"
  by (simp add: scalar_def)

lemma scalar_values_scalar: "list_all scalar (scalar_values s)"
proof (induction s rule: scalar_values.induct)
  case 1
  show ?case by simp
next
  case (2 u)
  show ?case by (simp add: single_value scalar_replacement)
next
  case (3 u v us)
  then show ?case by (simp add: pair_value single_value scalar_replacement)
qed

lemma units_of_pair:
  assumes "high_surrogate u" "low_surrogate v"
  shows "utf16_units (0x10000 + (unat u - 0xD800) * 0x400 + (unat v - 0xDC00)) = [u, v]"
proof -
  define h where "h = unat u - 0xD800"
  define l where "l = unat v - 0xDC00"
  have h: "0xD800 + h = unat u" using assms unfolding h_def high_nat by arith
  have l: "0xDC00 + l = unat v" "l < 0x400" using assms unfolding l_def low_nat by arith+
  have d: "(h * 0x400 + l) div 0x400 = h" using l by simp
  have m: "(h * 0x400 + l) mod 0x400 = l" using l by simp
  have big: "\<not> 0x10000 + h * 0x400 + l < 0x10000" by simp
  have sub: "0x10000 + h * 0x400 + l - 0x10000 = h * 0x400 + l" by simp
  have "utf16_units (0x10000 + h * 0x400 + l) =
          [of_nat (0xD800 + h), of_nat (0xDC00 + l)]"
    unfolding utf16_units_def if_not_P [OF big] sub d m ..
  also have "\<dots> = [of_nat (unat u), of_nat (unat v)]" unfolding h l ..
  also have "\<dots> = [u, v]" by simp
  finally show ?thesis unfolding h_def l_def .
qed

lemma units_of_single: "utf16_units (unat (u :: 16 word)) = [u]"
  using unat_unit_bound [of u] by (simp add: utf16_units_def)

lemma well_formed_roundtrip:
  "well_formed s \<Longrightarrow> concat (map utf16_units (scalar_values s)) = s"
proof (induction s rule: scalar_values.induct)
  case 1
  show ?case by simp
next
  case (2 u)
  then show ?case by (simp add: units_of_single)
next
  case (3 u v us)
  show ?case
  proof (cases "high_surrogate u")
    case True
    with "3.prems" have lv: "low_surrogate v" and wf: "well_formed us" by simp_all
    from "3.IH"(1) True lv wf have "concat (map utf16_units (scalar_values us)) = us" by simp
    with True lv show ?thesis by (simp add: units_of_pair)
  next
    case False
    with "3.prems" have nl: "\<not> low_surrogate u" and wf: "well_formed (v # us)" by simp_all
    from "3.IH"(2) False wf have "concat (map utf16_units (scalar_values (v # us))) = v # us"
      by simp
    with False nl show ?thesis by (simp add: units_of_single)
  qed
qed

lemma bom_unit: "unat (u :: 16 word) = 0xFEFF \<longleftrightarrow> u = 0xFEFF"
  by (simp add: word_unat_eq_iff)

lemma strip_bom_scalar_values:
  assumes "well_formed s" and "s = [] \<or> hd s \<noteq> 0xFEFF"
  shows "strip_bom (scalar_values s) = scalar_values s"
proof (cases s rule: scalar_values.cases)
  case 1
  then show ?thesis by (simp add: strip_bom_def)
next
  case (2 u)
  with assms show ?thesis by (simp add: strip_bom_def bom_unit)
next
  case (3 u v us)
  show ?thesis
  proof (cases "high_surrogate u")
    case True
    with 3 assms(1) have "low_surrogate v" by simp
    with True 3 show ?thesis by (simp add: strip_bom_def)
  next
    case False
    with 3 assms show ?thesis by (simp add: strip_bom_def bom_unit)
  qed
qed

lemma text_codec_roundtrip:
  assumes "well_formed s" and "s = [] \<or> hd s \<noteq> 0xFEFF"
  shows "text_decode (text_encode s) = s"
  unfolding text_decode_def text_encode_def
  by (simp add: decode_scalars scalar_values_scalar strip_bom_scalar_values [OF assms]
        well_formed_roundtrip [OF assms(1)])

lemma well_formed_plain:
  "\<not> high_surrogate u \<Longrightarrow> \<not> low_surrogate u \<Longrightarrow> well_formed (u # rest) = well_formed rest"
  by (cases rest) simp_all

lemma well_formed_pair:
  "high_surrogate u \<Longrightarrow> low_surrogate v \<Longrightarrow> well_formed (u # v # rest) = well_formed rest"
  by simp

lemma units_well_formed:
  assumes "scalar c"
  shows "well_formed (utf16_units c @ rest) = well_formed rest"
proof (cases "c < 0x10000")
  case True
  then have u: "unat (of_nat c :: 16 word) = c" by (simp add: unat_unit)
  with assms True have "\<not> high_surrogate (of_nat c)" "\<not> low_surrogate (of_nat c)"
    unfolding high_nat low_nat scalar_def by simp_all arith+
  with True show ?thesis by (simp add: utf16_units_def well_formed_plain del: of_nat_numeral)
next
  case False
  define x where "x = c - 0x10000"
  from False assms have x: "x < 0x100000" by (simp add: x_def scalar_def)
  define h :: "16 word" where "h = of_nat (0xD800 + x div 0x400)"
  define l :: "16 word" where "l = of_nat (0xDC00 + x mod 0x400)"
  have xd: "x div 0x400 < 0x400" using x by simp
  have uh: "unat h = 0xD800 + x div 0x400" unfolding h_def using xd by (intro unat_unit) simp
  have ul: "unat l = 0xDC00 + x mod 0x400" unfolding l_def by (intro unat_unit) simp
  have hs: "high_surrogate h" unfolding high_nat uh using xd by simp
  have ls: "low_surrogate l" unfolding low_nat ul by simp
  have "utf16_units c = [h, l]" using False by (simp add: utf16_units_def h_def l_def x_def)
  with hs ls show ?thesis by simp
qed

lemma scalars_well_formed:
  "list_all scalar cs \<Longrightarrow> well_formed (concat (map utf16_units cs))"
  by (induction cs) (simp_all add: units_well_formed)

lemma strip_bom_scalar: "list_all scalar cs \<Longrightarrow> list_all scalar (strip_bom cs)"
  by (cases cs) (simp_all add: strip_bom_def)

lemma text_decode_encode_well_formed: "well_formed (text_decode (text_encode s))"
  unfolding text_decode_def text_encode_def
  by (simp add: decode_scalars scalar_values_scalar scalars_well_formed strip_bom_scalar)

lemma not_surrogate_bom: "\<not> high_surrogate 0xFEFF" "\<not> low_surrogate 0xFEFF"
  by (simp_all add: high_surrogate_def low_surrogate_def)

lemma scalar_values_bom: "scalar_values (0xFEFF # t) = 0xFEFF # scalar_values t"
  by (cases t) (simp_all add: not_surrogate_bom)

lemma leading_bom_dropped:
  assumes "well_formed (0xFEFF # t)"
  shows "text_decode (text_encode (0xFEFF # t)) = t"
proof -
  from assms have t: "well_formed t" by (simp add: well_formed_plain not_surrogate_bom)
  have "scalar 0xFEFF" by (simp add: scalar_def)
  with scalar_values_scalar [of t]
  have "utf8_decode (concat (map utf8_bytes (0xFEFF # scalar_values t))) = 0xFEFF # scalar_values t"
    by (intro decode_scalars) simp
  then show ?thesis
    unfolding text_decode_def text_encode_def scalar_values_bom
    by (simp add: strip_bom_def well_formed_roundtrip [OF t])
qed

text \<open>
  The codec returns a string unchanged exactly when it is well-formed and does not begin
  with U+FEFF.
\<close>

lemma text_codec_roundtrip_iff:
  "text_decode (text_encode s) = s \<longleftrightarrow> well_formed s \<and> (s = [] \<or> hd s \<noteq> 0xFEFF)"
proof
  assume r: "text_decode (text_encode s) = s"
  with text_decode_encode_well_formed [of s] have wf: "well_formed s" by simp
  have "s = [] \<or> hd s \<noteq> 0xFEFF"
  proof (rule ccontr)
    assume "\<not> (s = [] \<or> hd s \<noteq> 0xFEFF)"
    then obtain t where s: "s = 0xFEFF # t" by (cases s) auto
    from leading_bom_dropped [of t] wf r s show False by simp
  qed
  with wf show "well_formed s \<and> (s = [] \<or> hd s \<noteq> 0xFEFF)" ..
next
  assume "well_formed s \<and> (s = [] \<or> hd s \<noteq> 0xFEFF)"
  then show "text_decode (text_encode s) = s" by (simp add: text_codec_roundtrip)
qed

section \<open>Encryption round trip\<close>

text \<open>
  Whatever the text codec: with a cipher whose decryption inverts its encryption under the
  same key and IV, and an envelope that parses back to the packet it was made from,
  decrypting an encrypted plaintext with the same password gives the plaintext as the
  codec returns it.
\<close>

lemma roundtrip_up_to_text_codec:
  assumes "\<forall>key iv m. aes_gcm_decrypt wc key iv (aes_gcm_encrypt wc key iv m) = Some m"
    and "\<forall>p. parse_atob wc (btoa_stringify wc p) = Some p"
  shows "decryptData wc (encryptData wc salt iv P W) W =
           Inr (TextDecoder_decode wc (TextEncoder_encode wc P))"
  using assms by (simp add: decryptData_def encryptData_def Let_def)

lemma codec_webcrypto_contracts:
  "(\<forall>key iv m. aes_gcm_decrypt codec_webcrypto key iv
                  (aes_gcm_encrypt codec_webcrypto key iv m) = Some m) \<and>
   (\<forall>p. parse_atob codec_webcrypto (btoa_stringify codec_webcrypto p) = Some p)"
  by (simp add: codec_webcrypto_def)

text \<open>
  Claim C1, as amended. With the platform's text codec, a cipher whose decryption inverts
  its encryption and an envelope that parses back, for every salt and IV and every
  password: decrypting \<^verbatim>\<open>encryptData(P, W)\<close> with \<^verbatim>\<open>W\<close> succeeds, and it
  returns \<^verbatim>\<open>P\<close> exactly when \<^verbatim>\<open>P\<close> is well-formed UTF-16 (no unpaired
  surrogate) and does not begin with U+FEFF.
\<close>

theorem encrypt_decrypt_roundtrip:
  assumes "\<forall>key iv m. aes_gcm_decrypt wc key iv (aes_gcm_encrypt wc key iv m) = Some m"
    and "\<forall>p. parse_atob wc (btoa_stringify wc p) = Some p"
    and "TextEncoder_encode wc = text_encode" and "TextDecoder_decode wc = text_decode"
  shows "decryptData wc (encryptData wc salt iv P W) W = Inr (text_decode (text_encode P)) \<and>
         (decryptData wc (encryptData wc salt iv P W) W = Inr P \<longleftrightarrow>
            well_formed P \<and> (P = [] \<or> hd P \<noteq> 0xFEFF))"
  using assms
  by (simp add: decryptData_def encryptData_def Let_def text_codec_roundtrip_iff)

text \<open>A key followed by a character outside the basic plane, under the password "pw".\<close>

theorem encrypt_decrypt_roundtrip_witness:
  "decryptData codec_webcrypto
     (encryptData codec_webcrypto demo_salt demo_iv demo_plaintext demo_password)
     demo_password = Inr demo_plaintext"
proof -
  have a: "\<forall>key iv m. aes_gcm_decrypt codec_webcrypto key iv
                  (aes_gcm_encrypt codec_webcrypto key iv m) = Some m"
    by (simp add: codec_webcrypto_def)
  have e: "\<forall>p. parse_atob codec_webcrypto (btoa_stringify codec_webcrypto p) = Some p"
    by (simp add: codec_webcrypto_def)
  have c: "TextEncoder_encode codec_webcrypto = text_encode"
    "TextDecoder_decode codec_webcrypto = text_decode"
    by (simp_all add: codec_webcrypto_def)
  have w: "well_formed demo_plaintext \<and> (demo_plaintext = [] \<or> hd demo_plaintext \<noteq> 0xFEFF)"
    by (simp add: demo_plaintext_def high_surrogate_def low_surrogate_def)
  from encrypt_decrypt_roundtrip [OF a e c, of demo_salt demo_iv demo_plaintext demo_password] w
  show ?thesis by blast
qed

lemma encode_bom: "text_encode [0xFEFF, 0x61] = [0xEF, 0xBB, 0xBF, 0x61]"
  by (simp add: text_encode_def utf8_bytes_def high_surrogate_def low_surrogate_def)

lemma decode_bom: "text_decode [0xEF, 0xBB, 0xBF, 0x61] = [0x61]"
  by (simp add: text_decode_def utf8_decode_def strip_bom_def utf16_units_def
      decode_start decode_continue utf8_decode_from.simps(1))

lemma encode_lone_surrogate: "text_encode [0xD800] = [0xEF, 0xBF, 0xBD]"
  by (simp add: text_encode_def utf8_bytes_def high_surrogate_def low_surrogate_def)

lemma decode_replacement: "text_decode [0xEF, 0xBF, 0xBD] = [0xFFFD]"
  by (simp add: text_decode_def utf8_decode_def strip_bom_def utf16_units_def
      decode_start decode_continue utf8_decode_from.simps(1))

text \<open>
  Claim C1 as stated fails for two plaintexts, under a cipher and an envelope that keep
  their contracts: "a" after U+FEFF comes back as "a", because the decoder drops a leading
  byte order mark; and the lone surrogate U+D800 comes back as U+FFFD, because the encoder
  replaces it.
\<close>

theorem roundtrip_changes_bom_and_lone_surrogate:
  "(\<forall>key iv m. aes_gcm_decrypt codec_webcrypto key iv
                  (aes_gcm_encrypt codec_webcrypto key iv m) = Some m) \<and>
   (\<forall>p. parse_atob codec_webcrypto (btoa_stringify codec_webcrypto p) = Some p) \<and>
   decryptData codec_webcrypto
     (encryptData codec_webcrypto demo_salt demo_iv bom_plaintext demo_password)
     demo_password = Inr [0x61] \<and>
   bom_plaintext \<noteq> [0x61] \<and>
   decryptData codec_webcrypto
     (encryptData codec_webcrypto demo_salt demo_iv [0xD800] demo_password)
     demo_password = Inr [0xFFFD]"
proof -
  note c = codec_webcrypto_contracts
  have codec: "TextEncoder_encode codec_webcrypto = text_encode"
    "TextDecoder_decode codec_webcrypto = text_decode"
    by (simp_all add: codec_webcrypto_def)
  from c have r: "\<And>P. decryptData codec_webcrypto
     (encryptData codec_webcrypto demo_salt demo_iv P demo_password) demo_password =
       Inr (text_decode (text_encode P))"
    using roundtrip_up_to_text_codec [of codec_webcrypto] by (simp add: codec)
  show ?thesis
    using c
    by (simp add: r encode_bom decode_bom encode_lone_surrogate decode_replacement
        bom_plaintext_def)
qed

end
